theory Spec2Isabelle
  imports Main "HOL-Library.AList"
begin

section \<open>Python helpers\<close>

text \<open>Python's \<open>sub in s\<close> on strings.\<close>

definition str_contains :: "string \<Rightarrow> string \<Rightarrow> bool" where
  "str_contains sub s = list_ex (\<lambda>i. take (length sub) (drop i s) = sub) [0..<Suc (length s)]"

text \<open>The backslash.\<close>

definition backslash :: char where
  "backslash = CHR 0x5C"

section \<open>Values, exceptions and the Result stream (parser/wrapper.py, models/errors.py)\<close>

text \<open>
  Python values that travel through a \<open>Result\<close>, and the exception classes of
  \<open>models/errors.py\<close> that the interpreter distinguishes.  A \<open>Result\<close> object that is
  itself used as a value is \<open>VResult data last\<close>.  \<open>PyException\<close> stands for every
  exception that is not a \<open>BaseError\<close> (\<open>TypeError\<close>, \<open>KeyError\<close>, ...).
\<close>

datatype val =
    VNone
  | VStr string
  | VInt int
  | VList "val list"
  | VResult "val list" val
  | VError exception
and exception =
    FalseError
  | BreakError
  | ContinueError
  | ReturnError val
  | LimitExceededError int string
  | CommandPermissionError string
  | ArgparseError string string
  | UnknownCommandError string
  | ReservedVariableError val
  | PermissionDeniedError string
  | NonEmptyDirectoryError string
  | NoFileFoundError string
  | FileExistsError string
  | ParsingError string
  | NoCommandError
  | InternalError exception
  | PyException string

text \<open>\<open>isinstance(x, BaseError)\<close>: every class of \<open>models/errors.py\<close>.\<close>

fun isinstance_BaseError :: "exception \<Rightarrow> bool" where
  "isinstance_BaseError (PyException _) = False"
| "isinstance_BaseError _ = True"

text \<open>\<open>isinstance(x, KeywordError)\<close>: \<open>BreakError\<close>, \<open>ContinueError\<close> (the two
  \<open>LoopError\<close>s) and \<open>ReturnError\<close>.\<close>

fun isinstance_KeywordError :: "exception \<Rightarrow> bool" where
  "isinstance_KeywordError BreakError = True"
| "isinstance_KeywordError ContinueError = True"
| "isinstance_KeywordError (ReturnError _) = True"
| "isinstance_KeywordError _ = False"

fun isinstance_ReturnError :: "exception \<Rightarrow> bool" where
  "isinstance_ReturnError (ReturnError _) = True"
| "isinstance_ReturnError _ = False"

fun is_BaseError_val :: "val \<Rightarrow> bool" where
  "is_BaseError_val (VError e) = isinstance_BaseError e"
| "is_BaseError_val _ = False"

text \<open>The mutable part of a \<open>Result\<close>: the list \<open>data\<close> and the attribute \<open>last\<close>.\<close>

record Result =
  data :: "val list"
  last' :: val

definition Result_new :: Result where
  "Result_new = \<lparr>data = [], last' = VNone\<rparr>"

definition as_val :: "Result \<Rightarrow> val" where
  "as_val r = VResult (data r) (last' r)"

text \<open>
  \<open>Result.append(object, inside)\<close>: a list or a Result is iterated and every element is
  appended with \<open>inside = True\<close>; any other value except \<open>None\<close> goes to the end of
  \<open>data\<close>; \<open>last\<close> is set only by the outermost call.
\<close>

function append' :: "Result \<Rightarrow> val \<Rightarrow> bool \<Rightarrow> Result" where
  "append' r object inside =
     (let r' = (case object of
                  VList xs \<Rightarrow> fold (\<lambda>element acc. append' acc element True) xs r
                | VResult xs l \<Rightarrow> fold (\<lambda>element acc. append' acc element True) xs r
                | VNone \<Rightarrow> r
                | _ \<Rightarrow> r\<lparr>data := data r @ [object]\<rparr>)
      in if \<not> inside then r'\<lparr>last' := object\<rparr> else r')"
  by pat_completeness auto
termination
  by (relation "measure (\<lambda>(r, object, inside). size object)")
     (auto simp: less_Suc_eq_le intro: size_list_estimation' trans_le_add1)

text \<open>
  \<open>Result.insert(object, inside)\<close>: the same, at the front of \<open>data\<close>, iterating the
  reversed sequence \<open>object[::-1]\<close>.
\<close>

function insert' :: "Result \<Rightarrow> val \<Rightarrow> bool \<Rightarrow> Result" where
  "insert' r object inside =
     (let r' = (case object of
                  VList xs \<Rightarrow> fold (\<lambda>element acc. insert' acc element True) (rev xs) r
                | VResult xs l \<Rightarrow> fold (\<lambda>element acc. insert' acc element True) (rev xs) r
                | VNone \<Rightarrow> r
                | _ \<Rightarrow> r\<lparr>data := object # data r\<rparr>)
      in if \<not> inside then r'\<lparr>last' := object\<rparr> else r')"
  by pat_completeness auto
termination
  by (relation "measure (\<lambda>(r, object, inside). size object)")
     (auto simp: less_Suc_eq_le intro: size_list_estimation' trans_le_add1)

text \<open>\<open>r << v\<close> is \<open>r.append(v)\<close>.\<close>

definition lshift :: "Result \<Rightarrow> val \<Rightarrow> Result" where
  "lshift r v = append' r v False"

declare append'.simps [simp del] insert'.simps [simp del]

text \<open>
  The leaves of a value in order: every nesting level of lists and Results is opened and
  \<open>None\<close> is dropped.  This is what one top-level \<open>append\<close> adds to \<open>data\<close>.
\<close>

fun flat_items :: "val \<Rightarrow> val list" where
  "flat_items (VList xs) = concat (map flat_items xs)"
| "flat_items (VResult xs l) = concat (map flat_items xs)"
| "flat_items VNone = []"
| "flat_items v = [v]"

text \<open>\<open>type(object) in (list, Result)\<close>.\<close>

fun is_list_or_Result :: "val \<Rightarrow> bool" where
  "is_list_or_Result (VList _) = True"
| "is_list_or_Result (VResult _ _) = True"
| "is_list_or_Result _ = False"

section \<open>Inode allocation (structure/filesystem.py, RootDirectory)\<close>

text \<open>The allocator fields of \<open>RootDirectory\<close>; Python's unbounded integers are \<open>int\<close>.\<close>

record RootDirectory =
  free_inodes_list :: "int list"
  next_public_inode :: int
  next_private_inode :: int

definition free_public_inodes :: "RootDirectory \<Rightarrow> int list" where
  "free_public_inodes root = filter (\<lambda>i. i \<ge> 10000) (free_inodes_list root)"

definition free_private_inodes :: "RootDirectory \<Rightarrow> int list" where
  "free_private_inodes root = filter (\<lambda>i. i < 10000) (free_inodes_list root)"

text \<open>
  \<open>RootDirectory.create_inode(public)\<close> returns the inode and the updated root.
  \<open>list.remove\<close> deletes the first occurrence, which is \<open>remove1\<close>.
\<close>

definition create_inode :: "RootDirectory \<Rightarrow> bool \<Rightarrow> int \<times> RootDirectory" where
  "create_inode root public =
     (if public then
        (case free_public_inodes root of
           inode # _ \<Rightarrow> (inode, root\<lparr>free_inodes_list := remove1 inode (free_inodes_list root)\<rparr>)
         | [] \<Rightarrow> (next_public_inode root,
                  root\<lparr>next_public_inode := next_public_inode root + 1\<rparr>))
      else
        (case free_private_inodes root of
           inode # _ \<Rightarrow> (inode, root\<lparr>free_inodes_list := remove1 inode (free_inodes_list root)\<rparr>)
         | [] \<Rightarrow> (next_private_inode root,
                  root\<lparr>next_private_inode := next_private_inode root + 1\<rparr>)))"

text \<open>A sequence of calls with no free in between, collecting the returned inodes.\<close>

fun create_inodes :: "RootDirectory \<Rightarrow> bool list \<Rightarrow> int list \<times> RootDirectory" where
  "create_inodes root [] = ([], root)"
| "create_inodes root (public # rest) =
     (let (inode, root') = create_inode root public;
          (inodes, root'') = create_inodes root' rest
      in (inode # inodes, root''))"

text \<open>The invariant on the free list that C10 names.\<close>

definition inode_invariant :: "RootDirectory \<Rightarrow> bool" where
  "inode_invariant root \<longleftrightarrow>
     distinct (free_inodes_list root)
     \<and> (\<forall>i \<in> set (free_inodes_list root).
           (i \<ge> 10000 \<longrightarrow> i < next_public_inode root)
         \<and> (i < 10000 \<longrightarrow> i < next_private_inode root))"

text \<open>The inodes a later call may still return, while the private counter is at most 10000.\<close>

definition available :: "RootDirectory \<Rightarrow> int set" where
  "available root = set (free_inodes_list root) \<union> {n. next_public_inode root \<le> n}
      \<union> {n. next_private_inode root \<le> n \<and> n < 10000}"

text \<open>\<open>RootDirectory.__init__\<close> on an empty store: \<open>inodes.get("free", [])\<close>,
  \<open>inodes.get("next", 10000)\<close>, and \<open>next_private_inode = 2\<close>.\<close>

definition RootDirectory_init :: RootDirectory where
  "RootDirectory_init = \<lparr>free_inodes_list = [], next_public_inode = 10000, next_private_inode = 2\<rparr>"

section \<open>Permissions (structure/permissions.py)\<close>

text \<open>An owner, a group or a principal is named by a number or a string (\<open>int | str\<close>).\<close>

datatype ident = IdInt int | IdStr string

text \<open>\<open>Mode(value, owner, group)\<close>.\<close>

record Mode =
  "value" :: int
  owner :: ident
  group :: ident

text \<open>\<open>format(value, "o")\<close> for a value that is not negative: the octal digits, the
  most significant first.\<close>

function oct_digits :: "nat \<Rightarrow> nat list" where
  "oct_digits n = (if n < 8 then [n] else oct_digits (n div 8) @ [n mod 8])"
  by pat_completeness auto
termination
  by (relation "measure id") auto

declare oct_digits.simps [simp del]

text \<open>\<open>.rjust(3, "0")\<close>.\<close>

definition rjust3 :: "nat list \<Rightarrow> nat list" where
  "rjust3 ds = replicate (3 - length ds) 0 @ ds"

text \<open>The body of the loop of \<open>Mode.__iter__\<close> for one digit.\<close>

definition rwx_of_digit :: "nat \<Rightarrow> string" where
  "rwx_of_digit num =
     (let r = (num \<ge> 4); num1 = (if r then num - 4 else num);
          w = (num1 \<ge> 2); num2 = (if w then num1 - 2 else num1)
      in [if r then CHR ''r'' else CHR ''-'',
          if w then CHR ''w'' else CHR ''-'',
          if num2 = 1 then CHR ''x'' else CHR ''-''])"

text \<open>\<open>Mode.__iter__\<close>.  For a negative value the string starts with \<open>-\<close> and
  \<open>int("-")\<close> raises \<open>ValueError\<close>.\<close>

definition Mode_iter :: "Mode \<Rightarrow> exception + string" where
  "Mode_iter m =
     (if value m < 0 then Inl (PyException ''ValueError'')
      else Inr (concat (map rwx_of_digit (rjust3 (oct_digits (nat (value m)))))))"

text \<open>\<open>[total[i : i + 3] for i in range(0, len(total), 3)]\<close>.\<close>

fun chunks3 :: "'a list \<Rightarrow> 'a list list" where
  "chunks3 (a # b # c # rest) = [a, b, c] # chunks3 rest"
| "chunks3 [] = []"
| "chunks3 xs = [xs]"

text \<open>\<open>Mode.bit_grouped\<close>.\<close>

definition bit_grouped :: "Mode \<Rightarrow> exception + bool list list" where
  "bit_grouped m =
     (case Mode_iter m of
        Inl e \<Rightarrow> Inl e
      | Inr chars \<Rightarrow> Inr (chunks3 (map (\<lambda>x. x \<noteq> CHR ''-'') chars)))"

text \<open>\<open>Mode.indexes\<close>; a missing key is \<open>None\<close>.\<close>

definition indexes :: "string \<Rightarrow> nat option" where
  "indexes action =
     (if action = ''read'' then Some 0 else if action = ''write'' then Some 1
      else if action = ''execute'' then Some 2 else None)"

text \<open>What \<open>Mode.check\<close> reads from an event: \<open>event.state.object.id\<close> and
  \<open>event.groups()\<close>.\<close>

record principal =
  principal_id :: ident
  principal_groups :: "ident list"

text \<open>The \<open>event\<close> argument: the constant \<open>True\<close>, \<open>None\<close>, or an event.\<close>

datatype event_arg = EventTrue | EventNone | EventOf principal

text \<open>\<open>Mode.check(file, action, event, exception)\<close>.  With \<open>event = None\<close> the code first
  reads \<open>bit_grouped[2]\<close>, which raises \<open>ValueError\<close> for a negative value, and the chain
  of conditions that follows then reads \<open>event.state\<close> or \<open>event.groups\<close> and raises
  \<open>AttributeError\<close>; an action \<open>owner\<close> or \<open>group\<close> that did not return is not a key of
  \<open>indexes\<close>.  \<open>EventOf\<close> is an event that is true (\<open>Event.__bool__\<close>) and has an acting
  object.\<close>

definition Mode_check :: "Mode \<Rightarrow> string \<Rightarrow> event_arg \<Rightarrow> bool \<Rightarrow> exception + bool" where
  "Mode_check m action event exception =
     (if action \<notin> {''read'', ''write'', ''execute'', ''owner'', ''group''}
      then Inl (PyException ''ValueError'')
      else case event of
        EventTrue \<Rightarrow> Inr True
      | EventNone \<Rightarrow>
          (case bit_grouped m of
             Inl e \<Rightarrow> Inl e
           | Inr grouped \<Rightarrow> Inl (PyException ''AttributeError''))
      | EventOf p \<Rightarrow>
          if action = ''owner'' \<and> principal_id p = owner m then Inr True
          else if action = ''group'' \<and> group m \<in> set (principal_groups p) then Inr True
          else case bit_grouped m of
            Inl e \<Rightarrow> Inl e
          | Inr grouped \<Rightarrow>
              let triple = (if principal_id p = owner m then grouped ! 0
                            else if group m \<in> set (principal_groups p) then grouped ! 1
                            else grouped ! 2)
              in case indexes action of
                   None \<Rightarrow> Inl (PyException ''KeyError'')
                 | Some index \<Rightarrow>
                     if \<not> triple ! index
                     then (if exception then Inl (PermissionDeniedError action) else Inr False)
                     else Inr True)"


text \<open>The rwx triples of a 9-bit mode value, \<open>k = 0\<close> the owner's, \<open>1\<close> the group's,
  \<open>2\<close> the others', and what a triple allows.\<close>

definition triple_of :: "int \<Rightarrow> nat \<Rightarrow> nat" where
  "triple_of v k = (nat v div 8 ^ (2 - k)) mod 8"

definition triple_allows :: "nat \<Rightarrow> string \<Rightarrow> bool" where
  "triple_allows t action =
     (if action = ''read'' then t div 4 mod 2 = 1
      else if action = ''write'' then t div 2 mod 2 = 1
      else t mod 2 = 1)"

definition triple_bits :: "nat \<Rightarrow> bool list" where
  "triple_bits t = map (triple_allows t) [''read'', ''write'', ''execute'']"

text \<open>The triple that C4 says is consulted for a principal.\<close>

definition selected_triple :: "Mode \<Rightarrow> principal \<Rightarrow> nat" where
  "selected_triple m p =
     (if principal_id p = owner m then triple_of (value m) 0
      else if group m \<in> set (principal_groups p) then triple_of (value m) 1
      else triple_of (value m) 2)"

section \<open>Files and directories (structure/filesystem.py, structure/data.py)\<close>

text \<open>
  A file object (\<open>ConstructorFile\<close> with the \<open>files\<close> dictionary of a directory).
  A dictionary keeps insertion order, so \<open>files\<close> is an association list from names
  to inodes; entries that hold a file object instead of an inode (generated nodes) are
  not modelled.
\<close>

record node =
  kind :: string
  name :: string
  inode :: int
  mode :: Mode
  refs :: "int list"
  files :: "(string \<times> int) list"

text \<open>The keys of \<open>dir_kinds\<close>.\<close>

definition dir_kinds :: "string list" where
  "dir_kinds = [''directory'', ''link'', ''generator'', ''generated_directory'', ''home_pointer'',
                ''home'', ''network_directory'', ''rootfs'', ''filter'']"

text \<open>The keys of \<open>file_kinds\<close>.\<close>

definition file_kinds :: "string list" where
  "file_kinds = [''file'', ''generated_file'', ''network_file'']"

text \<open>
  The global state the file operations work on: the list \<open>defaults\<close> (structure/data.py),
  looked up by inode, whose objects are shared, the backing store \<open>db._filesystem\<close>
  (models/database.py), which returns copies, and the root directory's allocator.
\<close>

record filesystem =
  defaults :: "int \<rightharpoonup> node"
  db :: "int \<rightharpoonup> node"
  root_directory :: RootDirectory

text \<open>\<open>get_by_inode(inode, name, path)\<close>: an object of \<open>defaults\<close> as it is, else the
  stored record with \<open>name\<close> set by \<open>db.get_file\<close>, else \<open>None\<close>.\<close>

definition get_by_inode :: "filesystem \<Rightarrow> int \<Rightarrow> string \<Rightarrow> node option" where
  "get_by_inode fs i nm =
     (case defaults fs i of
        Some in_defaults \<Rightarrow> Some in_defaults
      | None \<Rightarrow> (case db fs i of None \<Rightarrow> None | Some d \<Rightarrow> Some (d\<lparr>name := nm\<rparr>)))"

text \<open>
  \<open>BaseFile.save\<close>.  \<open>db.save_file\<close> stores a record that shares the \<open>files\<close>
  dictionary and the \<open>refs\<close> list with the saved object, and \<open>db.get_file\<close> returns a deep
  copy.  The sharing is not modelled: here the stored record changes only when the
  object is saved, so the model follows the code for objects that are read back from the
  store or saved after each change.  \<open>root.save()\<close>, which stores the allocator's public
  counter and free list under inode 0, is left out.
\<close>

definition save :: "filesystem \<Rightarrow> node \<Rightarrow> filesystem" where
  "save fs f =
     (if str_contains ''generat'' (kind f) then fs
      else if inode f \<ge> 10000 then fs\<lparr>db := (db fs)(inode f \<mapsto> f)\<rparr>
      else fs\<lparr>defaults := (defaults fs)(inode f \<mapsto> f)\<rparr>)"

text \<open>
  An object that is in \<open>defaults\<close> is shared: a mutation of it is seen by every later
  lookup at once.  \<open>touch\<close> writes the mutated object back to \<open>defaults\<close> when it is one
  of them; a copy read from the store changes only when it is saved.
\<close>

definition touch :: "filesystem \<Rightarrow> node \<Rightarrow> filesystem" where
  "touch fs f = (if defaults fs (inode f) = None then fs
                 else fs\<lparr>defaults := (defaults fs)(inode f \<mapsto> f)\<rparr>)"

text \<open>\<open>ConstructorFile.add_reference\<close> and \<open>remove_reference\<close>.\<close>

definition add_reference :: "node \<Rightarrow> int \<Rightarrow> node" where
  "add_reference f i = (if i \<notin> set (refs f) then f\<lparr>refs := refs f @ [i]\<rparr> else f)"

definition remove_reference :: "node \<Rightarrow> int \<Rightarrow> node" where
  "remove_reference f i = (if i \<in> set (refs f) then f\<lparr>refs := remove1 i (refs f)\<rparr> else f)"

text \<open>\<open>BaseFile.check(action, event)\<close> with \<open>exception = True\<close>.\<close>

definition check :: "node \<Rightarrow> string \<Rightarrow> event_arg \<Rightarrow> exception + bool" where
  "check f action event = Mode_check (mode f) action event True"

text \<open>The names that \<open>BaseFile.select\<close> resolves itself (the directory itself, the
  parent, the root, a home, a filter).\<close>

definition special_name :: "string \<Rightarrow> bool" where
  "special_name nm \<longleftrightarrow> nm = [] \<or> nm = ''.'' \<or> nm = ''..'' \<or> nm = ''/''
      \<or> take 1 nm = ''~'' \<or> take 1 nm = ''%''"

text \<open>
  \<open>Directory.select\<close>, with \<open>BaseFile.select\<close> inlined.  What \<open>BaseFile.select\<close> returns
  for a special name depends on paths, homes and filters; it is the parameter \<open>special\<close>.
  \<open>if not inode\<close> also rejects the inode 0.
\<close>

definition select ::
  "(node \<Rightarrow> string \<Rightarrow> exception + node option) \<Rightarrow> filesystem \<Rightarrow> node \<Rightarrow> string \<Rightarrow> event_arg
     \<Rightarrow> exception + node option" where
  "select special fs self nm event =
     (case check self ''read'' event of
        Inl e \<Rightarrow> Inl e
      | Inr _ \<Rightarrow>
          if str_contains ''file'' (kind self) then Inl (PyException ''NotImplementedError'')
          else case (if special_name nm then special self nm else Inr None) of
            Inl e \<Rightarrow> Inl e
          | Inr (Some selected) \<Rightarrow> Inr (Some selected)
          | Inr None \<Rightarrow>
              (case map_of (files self) nm of
                 None \<Rightarrow> Inl (NoFileFoundError nm)
               | Some i \<Rightarrow> if i = 0 then Inl (NoFileFoundError nm)
                           else Inr (get_by_inode fs i nm)))"

text \<open>
  \<open>kinds[kind](name, mode)\<close>: a fresh object with no inode, no references, no files.  Two
  constructors cannot be called this way: \<open>Generator\<close> requires the keyword \<open>function\<close>
  (\<open>TypeError\<close>), and \<open>RootDirectory(client, inodes)\<close> calls \<open>inodes.get\<close> on the mode
  (\<open>AttributeError\<close>).
\<close>

definition new_node :: "string \<Rightarrow> string \<Rightarrow> Mode \<Rightarrow> exception + node" where
  "new_node k nm m =
     (if k = ''generator'' then Inl (PyException ''TypeError'')
      else if k = ''rootfs'' then Inl (PyException ''AttributeError'')
      else Inr \<lparr>kind = k, name = nm, inode = 0, mode = m, refs = [], files = []\<rparr>)"

text \<open>
  \<open>Directory.create(kind, name, mode, event)\<close>; returns the updated directory object and
  the new file.  A kind that is not a key of \<open>kinds\<close> raises \<open>KeyError\<close>.  A
  \<open>FilterDirectory\<close> is no \<open>BaseFile\<close>: its \<open>save\<close> is looked up on \<open>prev\<close>, which is
  \<open>None\<close>, and raises \<open>AttributeError\<close> after the inode was taken and the directory saved.
\<close>

definition create ::
  "filesystem \<Rightarrow> node \<Rightarrow> string \<Rightarrow> string \<Rightarrow> Mode option \<Rightarrow> event_arg
     \<Rightarrow> (exception + node \<times> node) \<times> filesystem" where
  "create fs self k nm m event =
     (case check self ''write'' event of
        Inl e \<Rightarrow> (Inl e, fs)
      | Inr _ \<Rightarrow>
          if nm \<in> fst ` set (files self) then (Inl (FileExistsError nm), fs)
          else if k \<notin> set (dir_kinds @ file_kinds) then (Inl (PyException ''KeyError''), fs)
          else case new_node k nm (case m of Some m' \<Rightarrow> m' | None \<Rightarrow> mode self) of
            Inl e \<Rightarrow> (Inl e, fs)
          | Inr file \<Rightarrow>
              let (i, root') = create_inode (root_directory fs) (inode self \<ge> 10000);
                  file = file\<lparr>inode := i\<rparr>;
                  self' = self\<lparr>files := AList.update nm i (files self)\<rparr>;
                  file = add_reference file (inode self);
                  fs1 = touch (fs\<lparr>root_directory := root'\<rparr>) self';
                  fs2 = save fs1 self'
              in if k = ''filter'' then (Inl (PyException ''AttributeError''), fs2)
                 else (Inr (self', file), save fs2 file))"

text \<open>
  \<open>BaseFile.__delete(recursive)\<close>, collecting what the generator yields.  The recursion
  follows the stored inodes, so it carries fuel; \<open>None\<close> is out of fuel.  A child that
  \<open>get_by_inode\<close> does not find is \<open>None\<close>, and calling \<open>__delete\<close> on it raises
  \<open>AttributeError\<close>.
\<close>

fun delete :: "nat \<Rightarrow> filesystem \<Rightarrow> node \<Rightarrow> bool \<Rightarrow> ((exception + node list) \<times> filesystem) option" where
  "delete 0 fs self recursive = None"
| "delete (Suc fuel) fs self recursive =
     (if refs self \<noteq> [] then Some (Inr [], fs)
      else
        let children =
              (if kind self \<in> set dir_kinds \<and> recursive then files self else [])
        in case fold (\<lambda>(nm, i) acc.
                   case acc of
                     None \<Rightarrow> None
                   | Some (Inl e, fs') \<Rightarrow> Some (Inl e, fs')
                   | Some (Inr removed, fs') \<Rightarrow>
                       (case get_by_inode fs' i nm of
                          None \<Rightarrow> Some (Inl (PyException ''AttributeError''), fs')
                        | Some file \<Rightarrow>
                            (case delete fuel fs' file recursive of
                               None \<Rightarrow> None
                             | Some (Inl e, fs'') \<Rightarrow> Some (Inl e, fs'')
                             | Some (Inr others, fs'') \<Rightarrow> Some (Inr (removed @ others), fs''))))
                 children (Some (Inr [], fs)) of
             None \<Rightarrow> None
           | Some (Inl e, fs') \<Rightarrow> Some (Inl e, fs')
           | Some (Inr removed, fs') \<Rightarrow>
               Some (Inr (removed @ [self]),
                     fs'\<lparr>root_directory := (root_directory fs')\<lparr>free_inodes_list :=
                                     free_inodes_list (root_directory fs') @ [inode self]\<rparr>,
                          db := (db fs')(inode self := None)\<rparr>))"

text \<open>
  \<open>BaseFile.remove(name, event, recursive, file)\<close> on a directory object \<open>self\<close>; returns
  the result or the exception, the directory object as mutated, and the state.  The
  returned list holds the names of the removed objects (the source returns their paths).
  A \<open>selected\<close> that is \<open>None\<close> reaches \<open>selected.name\<close> and raises \<open>AttributeError\<close>.
\<close>

definition remove ::
  "(node \<Rightarrow> string \<Rightarrow> exception + node option) \<Rightarrow> nat \<Rightarrow> filesystem \<Rightarrow> node \<Rightarrow> string option
     \<Rightarrow> event_arg \<Rightarrow> bool \<Rightarrow> node option
     \<Rightarrow> ((exception + string list) \<times> node \<times> filesystem) option" where
  "remove special fuel fs self nm event recursive file =
     (if kind self = ''file'' then Some (Inl (PyException ''NotImplementedError''), self, fs)
      else case check self ''write'' event of
        Inl e \<Rightarrow> Some (Inl e, self, fs)
      | Inr _ \<Rightarrow>
         (case (case file of
                  Some f \<Rightarrow> Inr (Some f, name f)
                | None \<Rightarrow>
                    (case nm of
                       None \<Rightarrow> Inl (PyException ''TypeError'')
                     | Some n \<Rightarrow>
                         if n = [] then Inl (PyException ''TypeError'')
                         else (case select special fs self n event of
                                 Inl e \<Rightarrow> Inl e
                               | Inr selected \<Rightarrow> Inr (selected, n)))) of
            Inl e \<Rightarrow> Some (Inl e, self, fs)
          | Inr (None, n) \<Rightarrow> Some (Inl (PyException ''AttributeError''), self, fs)
          | Inr (Some selected, n) \<Rightarrow>
              if kind selected \<in> set dir_kinds \<and> files selected \<noteq> [] \<and> \<not> recursive
              then Some (Inl (NonEmptyDirectoryError (name selected)), self, fs)
              else if name selected \<notin> fst ` set (files self)
              then Some (Inl (NoFileFoundError n), self, fs)
              else
                let self' = self\<lparr>files := AList.delete (name selected) (files self)\<rparr>;
                    fs1 = touch fs self';
                    selected' = remove_reference selected (inode self);
                    fs2 = touch fs1 selected'
                in case delete fuel fs2 selected' recursive of
                     None \<Rightarrow> None
                   | Some (Inl e, fs3) \<Rightarrow> Some (Inl e, self', fs3)
                   | Some (Inr removed, fs3) \<Rightarrow>
                       Some (Inr (map name removed), self', save fs3 self')))"

text \<open>A small file system for the examples: one directory of user 7 in the backing store.\<close>

definition m755 :: Mode where "m755 = \<lparr>value = 493, owner = IdInt 7, group = IdInt 7\<rparr>"
definition user7 :: event_arg where "user7 = EventOf \<lparr>principal_id = IdInt 7, principal_groups = [IdStr ''any'', IdInt 7]\<rparr>"
definition home7 :: node where
  "home7 = \<lparr>kind = ''directory'', name = ''home'', inode = 10000, mode = m755, refs = [1], files = []\<rparr>"
definition fs0 :: filesystem where
  "fs0 = \<lparr>defaults = Map.empty, db = [10000 \<mapsto> home7],
           root_directory = \<lparr>free_inodes_list = [], next_public_inode = 10001, next_private_inode = 2\<rparr>\<rparr>"

text \<open>No special name resolves.\<close>

definition no_special :: "node \<Rightarrow> string \<Rightarrow> exception + node option" where
  "no_special self nm = Inr None"

section \<open>Events, commands and dispatch (models/event.py, models/state.py, models/packages.py)\<close>

text \<open>
  What the interpreter reads and writes on an event: \<open>event.groups()\<close>, the option
  \<open>event["return_on_error"]\<close>, \<open>event.state.command_args\<close>,
  \<open>event.state.skip_top_priority\<close>, the reserved variable names
  (\<open>event.objects_cli | state.special_variables\<close>) and \<open>event.temporary_variables\<close>.
  The record is extensible: a command may keep any further state in the extension.
\<close>

record Event =
  groups :: "ident list"
  return_on_error :: bool
  command_args :: "val list"
  skip_top_priority :: bool
  reserved_variables :: "val list"
  temporary_variables :: "(val \<times> val) list"

text \<open>An evaluation step returns a value or raises, and leaves an event behind.\<close>

type_synonym 'a finalize = "'a Event_scheme \<Rightarrow> (exception + val) \<times> 'a Event_scheme"

text \<open>
  \<open>state.set_variable(event, name, value)\<close> with \<open>export = False\<close> and no \<open>edit\<close>, and
  \<open>state.pop_variable(event, name)\<close>.  A list is not hashable, so it cannot be looked up
  in the dictionaries.
\<close>

definition set_variable :: "'a Event_scheme \<Rightarrow> val \<Rightarrow> val \<Rightarrow> exception + 'a Event_scheme" where
  "set_variable event nm v =
     (case nm of
        VList _ \<Rightarrow> Inl (PyException ''TypeError'')
      | _ \<Rightarrow>
          if nm \<in> set (reserved_variables event) then Inl (ReservedVariableError nm)
          else Inr (event\<lparr>temporary_variables := AList.update nm v (temporary_variables event)\<rparr>))"

definition pop_variable :: "'a Event_scheme \<Rightarrow> val \<Rightarrow> 'a Event_scheme" where
  "pop_variable event nm =
     event\<lparr>temporary_variables := AList.delete nm (temporary_variables event)\<rparr>"

text \<open>
  The arguments a command body receives: the raw list when the command has no argument
  parser, else the namespace that \<open>argparse\<close> built.
\<close>

datatype parsed =
    Args "string list"
  | Namespace (ns_help: bool) (ns_options: "string list") (ns_positional: "string list")

text \<open>
  A statically registered command: the class attributes of \<open>Command\<close> that dispatch reads.
  \<open>argparser\<close> is the \<open>parse_args\<close> of the command's parser, \<open>Inl\<close> the argument name of an
  \<open>argparse.ArgumentError\<close>; \<open>command_function\<close> is \<open>cls.function(event, parsed, stdin)\<close>.
\<close>

record 'a Command =
  command_name :: string
  command_group :: ident
  command_aliases :: "string list"
  argparser :: "(string list \<Rightarrow> string + parsed) option"
  help_message :: string
  command_function :: "'a Event_scheme \<Rightarrow> parsed \<Rightarrow> val \<Rightarrow> (exception + val) \<times> 'a Event_scheme"

text \<open>\<open>cls.group not in event.groups() and "root" not in event.groups()\<close>.\<close>

definition group_check_fails :: "'a Command \<Rightarrow> 'a Event_scheme \<Rightarrow> bool" where
  "group_check_fails cls event \<longleftrightarrow>
     command_group cls \<notin> set (groups event) \<and> IdStr ''root'' \<notin> set (groups event)"

text \<open>\<open>Command.unsafe_execute(event, parsed, stdin)\<close>.\<close>

definition unsafe_execute ::
  "'a Command \<Rightarrow> 'a Event_scheme \<Rightarrow> string list \<Rightarrow> val \<Rightarrow> (exception + val) \<times> 'a Event_scheme" where
  "unsafe_execute cls event parsed stdin =
     (if group_check_fails cls event
      then (Inl (CommandPermissionError (command_name cls)), event)
      else case argparser cls of
        Some parse_args \<Rightarrow>
          (case parse_args parsed of
             Inl argument_name \<Rightarrow> (Inl (ArgparseError (command_name cls) argument_name), event)
           | Inr ns \<Rightarrow>
               if (case ns of Namespace h _ _ \<Rightarrow> h | Args _ \<Rightarrow> False)
               then (Inr (VStr (help_message cls)), event)
               else command_function cls event ns stdin)
      | None \<Rightarrow> command_function cls event (Args parsed) stdin)"

text \<open>\<open>Command.execute(event, parsed, stdin)\<close>.\<close>

definition execute ::
  "'a Command \<Rightarrow> 'a Event_scheme \<Rightarrow> string list \<Rightarrow> val \<Rightarrow> (exception + val) \<times> 'a Event_scheme" where
  "execute cls event parsed stdin =
     (case unsafe_execute cls event parsed stdin of
        (Inr v, event') \<Rightarrow> (Inr v, event')
      | (Inl ex, event') \<Rightarrow>
          if isinstance_KeywordError ex then (Inl ex, event')
          else if return_on_error event'
          then (Inl (ReturnError (VError (if isinstance_BaseError ex then ex else InternalError ex))),
                event')
          else (Inl ex, event'))"

section \<open>The typed nodes and their evaluation (parser/wrapper.py)\<close>

text \<open>
  \<open>Result.last_keyword_error()\<close>: when \<open>last\<close> is a Result whose own \<open>last\<close> is a
  \<open>KeywordError\<close>, that error is raised.
\<close>

definition last_keyword_error :: "Result \<Rightarrow> exception option" where
  "last_keyword_error r =
     (case last' r of
        VResult d (VError e) \<Rightarrow> if isinstance_KeywordError e then Some e else None
      | _ \<Rightarrow> None)"

text \<open>
  The same call on a value that need not be a Result (\<open>Function.execute\<close> calls it on
  whatever the body returned): anything else has no such method.
\<close>

definition val_last_keyword_error :: "val \<Rightarrow> exception option" where
  "val_last_keyword_error v =
     (case v of
        VResult d l \<Rightarrow> last_keyword_error \<lparr>data = d, last' = l\<rparr>
      | _ \<Rightarrow> Some (PyException ''AttributeError''))"

text \<open>\<open>Result.pop()\<close>: the drained copy \<open>Result(data=copy)\<close>, whose \<open>last\<close> the constructor
  resets to \<open>None\<close>, and the Result itself with \<open>data\<close> cleared (its \<open>last\<close> stays).\<close>

definition pop :: "Result \<Rightarrow> Result \<times> Result" where
  "pop r = ((if data r \<noteq> [] then append' Result_new (VList (data r)) False else Result_new)
              \<lparr>last' := VNone\<rparr>,
            r\<lparr>data := []\<rparr>)"

text \<open>
  The data of a Result is flat: it holds no list, no Result and no \<open>None\<close>, since
  \<open>append\<close> and \<open>insert\<close> are the only ways in.
\<close>

definition flat :: "val list \<Rightarrow> bool" where
  "flat d \<longleftrightarrow> (\<forall>x \<in> set d. x \<noteq> VNone \<and> \<not> is_list_or_Result x)"

text \<open>\<open>Result.errors\<close>.\<close>

definition errors :: "val list \<Rightarrow> val list" where
  "errors d = filter is_BaseError_val d"

text \<open>Iterating a value with \<open>for x in value\<close>: a Result yields its data, a list its
  elements, a string its characters; the other values are not iterable.\<close>

definition iterate :: "val \<Rightarrow> exception + val list" where
  "iterate v =
     (case v of
        VResult d l \<Rightarrow> Inr d
      | VList xs \<Rightarrow> Inr xs
      | VStr s \<Rightarrow> Inr (map (\<lambda>c. VStr [c]) s)
      | _ \<Rightarrow> Inl (PyException ''TypeError''))"

text \<open>
  The children of a node.  \<open>Reservedword\<close>, \<open>Operator\<close> and \<open>Pipe\<close> are the classes the
  evaluators test for with \<open>type(object) is ...\<close>; every other child is a \<open>Node\<close>, given by
  what its \<open>finalize(event, stdin=...)\<close> does (\<open>VNone\<close> when no \<open>stdin\<close> is passed).
\<close>

datatype 'a wrapper =
    Reservedword string
  | Operator string
  | Pipe
  | Node "val \<Rightarrow> 'a finalize"

text \<open>
  \<open>object.finalize(event)\<close> and \<open>object.finalize(event, stdin=...)\<close>.
  \<open>Reservedword.finalize\<close> returns the word and takes no \<open>stdin\<close>; \<open>Operator.finalize\<close>
  needs the keyword \<open>previous\<close>; \<open>Pipe\<close> has no \<open>finalize\<close>.
\<close>

fun finalize_plain :: "'a wrapper \<Rightarrow> 'a finalize" where
  "finalize_plain (Node f) event = f VNone event"
| "finalize_plain (Reservedword w) event = (Inr (VStr w), event)"
| "finalize_plain (Operator t) event = (Inl (PyException ''TypeError''), event)"
| "finalize_plain Pipe event = (Inl (PyException ''AttributeError''), event)"

fun finalize_stdin :: "'a wrapper \<Rightarrow> val \<Rightarrow> 'a finalize" where
  "finalize_stdin (Node f) stdin event = f stdin event"
| "finalize_stdin (Reservedword w) stdin event = (Inl (PyException ''TypeError''), event)"
| "finalize_stdin (Operator t) stdin event = (Inl (PyException ''TypeError''), event)"
| "finalize_stdin Pipe stdin event = (Inl (PyException ''AttributeError''), event)"

text \<open>\<open>Operator.finalize(previous)\<close>: \<open>False\<close> means that the next element is skipped.\<close>

definition was_exception :: "val \<Rightarrow> bool" where
  "was_exception previous \<longleftrightarrow>
     is_BaseError_val previous
     \<or> (case previous of VResult d l \<Rightarrow> errors d \<noteq> [] | _ \<Rightarrow> False)"

definition Operator_finalize :: "string \<Rightarrow> val \<Rightarrow> bool" where
  "Operator_finalize t previous =
     (if t = ''&&'' \<and> was_exception previous then False
      else if t = ''||'' \<and> \<not> was_exception previous then False
      else if t \<noteq> ''||'' \<and> (case previous of VError e \<Rightarrow> isinstance_ReturnError e | _ \<Rightarrow> False)
      then False
      else True)"

text \<open>
  \<open>List.finalize\<close>: the loop over \<open>self.data\<close> with the accumulated Result and the flag
  \<open>skip\<close>.  A \<open>KeywordError\<close> is appended and ends the loop; any other exception is
  appended (wrapped in \<open>InternalError\<close> when it is not a \<open>BaseError\<close>) and the loop goes on.
\<close>

fun List_loop :: "'a wrapper list \<Rightarrow> Result \<Rightarrow> bool \<Rightarrow> 'a Event_scheme \<Rightarrow> Result \<times> 'a Event_scheme" where
  "List_loop [] result skip event = (result, event)"
| "List_loop (object # rest) result skip event =
     (if skip then List_loop rest result False event
      else case object of
        Operator t \<Rightarrow> List_loop rest result (\<not> Operator_finalize t (last' result)) event
      | _ \<Rightarrow>
          (case finalize_plain object event of
             (Inr v, event') \<Rightarrow> List_loop rest (lshift result v) False event'
           | (Inl ex, event') \<Rightarrow>
               if isinstance_KeywordError ex then (lshift result (VError ex), event')
               else if isinstance_BaseError ex
               then List_loop rest (lshift result (VError ex)) False event'
               else List_loop rest (lshift result (VError (InternalError ex))) False event'))"

definition List_finalize :: "'a wrapper list \<Rightarrow> 'a finalize" where
  "List_finalize data_list event =
     (case List_loop data_list Result_new False event of
        (result, event') \<Rightarrow> (Inr (as_val result), event'))"

text \<open>
  \<open>Pipeline.finalize\<close>: the loop over \<open>self.data\<close> with the accumulated Result and the flag
  \<open>pipe\<close>.  Nothing is caught here (\<open>ReturnError\<close> is raised again).
\<close>

fun Pipeline_loop ::
  "'a wrapper list \<Rightarrow> Result \<Rightarrow> bool \<Rightarrow> 'a Event_scheme \<Rightarrow> (exception + Result) \<times> 'a Event_scheme" where
  "Pipeline_loop [] result pipe event = (Inr result, event)"
| "Pipeline_loop (object # rest) result pipe event =
     (case object of
        Pipe \<Rightarrow> Pipeline_loop rest result True event
      | _ \<Rightarrow>
          let (stdin, result1) = (if pipe then (case pop result of (popped, r) \<Rightarrow> (as_val popped, r))
                                  else (VNone, result))
          in case finalize_stdin object stdin event of
               (Inl ex, event') \<Rightarrow> (Inl ex, event')
             | (Inr v, event') \<Rightarrow>
                 let result2 = lshift result1 v
                 in case last_keyword_error result2 of
                      Some ex \<Rightarrow> (Inl ex, event')
                    | None \<Rightarrow> Pipeline_loop rest result2 False event')"

definition Pipeline_finalize :: "'a wrapper list \<Rightarrow> 'a finalize" where
  "Pipeline_finalize data_list event =
     (case Pipeline_loop data_list Result_new False event of
        (Inl ex, event') \<Rightarrow> (Inl ex, event')
      | (Inr result, event') \<Rightarrow> (Inr (as_val result), event'))"

text \<open>\<open>Compound.finalize\<close>: reserved words are passed over, nothing is caught.\<close>

fun Compound_loop :: "'a wrapper list \<Rightarrow> Result \<Rightarrow> 'a Event_scheme \<Rightarrow> (exception + Result) \<times> 'a Event_scheme" where
  "Compound_loop [] result event = (Inr result, event)"
| "Compound_loop (object # rest) result event =
     (case object of
        Reservedword w \<Rightarrow> Compound_loop rest result event
      | _ \<Rightarrow>
          (case finalize_plain object event of
             (Inl ex, event') \<Rightarrow> (Inl ex, event')
           | (Inr v, event') \<Rightarrow> Compound_loop rest (lshift result v) event'))"

definition Compound_finalize :: "'a wrapper list \<Rightarrow> 'a finalize" where
  "Compound_finalize data_list event =
     (case Compound_loop data_list Result_new event of
        (Inl ex, event') \<Rightarrow> (Inl ex, event')
      | (Inr result, event') \<Rightarrow> (Inr (as_val result), event'))"

text \<open>
  The two statements inside the \<open>try\<close> of \<open>If\<close>, \<open>For\<close>, \<open>Loop\<close>:
  \<open>result << await object.finalize(event)\<close> and \<open>result.last_keyword_error()\<close>.
  Returns the exception raised, if any, and the Result as it then is.
\<close>

definition try_body ::
  "'a wrapper \<Rightarrow> Result \<Rightarrow> 'a Event_scheme \<Rightarrow> (exception option \<times> Result) \<times> 'a Event_scheme" where
  "try_body object result event =
     (case finalize_plain object event of
        (Inl ex, event') \<Rightarrow> ((Some ex, result), event')
      | (Inr v, event') \<Rightarrow> ((last_keyword_error (lshift result v), lshift result v), event'))"

text \<open>\<open>If.actions\<close>, \<open>For.actions\<close>, \<open>Loop.actions\<close>; the outer \<open>None\<close> is a missing key, the
  inner one the value \<open>None\<close>.\<close>

definition If_actions :: "string \<Rightarrow> string option option" where
  "If_actions w =
     map_of [(''if'', Some ''condition''), (''elif'', Some ''condition''), ('';'', None),
             (''then'', Some ''action''), (''else'', Some ''else_action''), (''fi'', Some ''end'')] w"

definition For_actions :: "string \<Rightarrow> string option option" where
  "For_actions w =
     map_of [(''for'', Some ''variable''), (''in'', Some ''list''), ('';'', None),
             (''do'', Some ''action''), (''done'', Some ''end'')] w"


text \<open>
  \<open>If.finalize\<close>: the loop over \<open>self.data\<close> with \<open>condition_result\<close> and \<open>action\<close>.  Only
  \<open>ReturnError\<close> is caught, and raised again with the Result to which its value was
  appended.
\<close>

fun If_loop ::
  "'a wrapper list \<Rightarrow> val \<Rightarrow> string option \<Rightarrow> 'a Event_scheme \<Rightarrow> (exception + Result) \<times> 'a Event_scheme" where
  "If_loop [] condition_result action event = (Inr Result_new, event)"
| "If_loop (object # rest) condition_result action event =
     (case object of
        Reservedword w \<Rightarrow>
          (case If_actions w of
             None \<Rightarrow> (Inl (PyException ''KeyError''), event)
           | Some a \<Rightarrow> If_loop rest condition_result a event)
      | _ \<Rightarrow>
          if action = Some ''condition'' then
            (case finalize_plain object event of
               (Inl ex, event') \<Rightarrow> (Inl ex, event')
             | (Inr v, event') \<Rightarrow> If_loop rest v action event')
          else
            (case (if action = Some ''action'' \<and> condition_result \<noteq> VNone
                   then (case iterate condition_result of
                           Inl ex \<Rightarrow> Inl ex
                         | Inr xs \<Rightarrow> Inr (\<not> list_ex is_BaseError_val xs))
                   else Inr False) of
               Inl ex \<Rightarrow> (Inl ex, event)
             | Inr taken \<Rightarrow>
                 if taken \<or> action = Some ''else_action'' then
                   (case try_body object Result_new event of
                      ((None, result), event') \<Rightarrow> (Inr result, event')
                    | ((Some ex, result), event') \<Rightarrow>
                        (case ex of
                           ReturnError v \<Rightarrow> (Inl (ReturnError (as_val (lshift result v))), event')
                         | _ \<Rightarrow> (Inl ex, event')))
                 else If_loop rest condition_result action event))"

definition If_finalize :: "'a wrapper list \<Rightarrow> 'a finalize" where
  "If_finalize data_list event =
     (case If_loop data_list VNone None event of
        (Inl ex, event') \<Rightarrow> (Inl ex, event')
      | (Inr result, event') \<Rightarrow> (Inr (as_val result), event'))"

text \<open>
  The inner loop of \<open>For.finalize\<close>, \<open>for variable in iterable\<close>.  \<open>set_variable\<close> is
  outside the \<open>try\<close>.  \<open>BreakError\<close> ends the loop, \<open>ContinueError\<close> goes to the next
  element, \<open>ReturnError\<close> is raised again around the Result with its value appended, and
  \<open>except Exception: pass\<close> drops every other exception.
\<close>

fun For_iterate ::
  "val \<Rightarrow> 'a wrapper \<Rightarrow> val list \<Rightarrow> Result \<Rightarrow> 'a Event_scheme \<Rightarrow> (exception + Result) \<times> 'a Event_scheme" where
  "For_iterate nm object [] result event = (Inr result, event)"
| "For_iterate nm object (variable # rest) result event =
     (case set_variable event nm variable of
        Inl ex \<Rightarrow> (Inl ex, event)
      | Inr event1 \<Rightarrow>
          (case try_body object result event1 of
             ((None, result1), event2) \<Rightarrow> For_iterate nm object rest result1 event2
           | ((Some ex, result1), event2) \<Rightarrow>
               (case ex of
                  BreakError \<Rightarrow> (Inr result1, event2)
                | ContinueError \<Rightarrow> For_iterate nm object rest result1 event2
                | ReturnError v \<Rightarrow> (Inl (ReturnError (as_val (lshift result1 v))), event2)
                | _ \<Rightarrow> For_iterate nm object rest result1 event2)))"

text \<open>\<open>For.finalize\<close>: the loop over \<open>self.data\<close> with \<open>name\<close>, \<open>iterable\<close> and \<open>action\<close>.\<close>

fun For_loop ::
  "'a wrapper list \<Rightarrow> val \<Rightarrow> val list \<Rightarrow> string option \<Rightarrow> 'a Event_scheme
     \<Rightarrow> (exception + Result) \<times> 'a Event_scheme" where
  "For_loop [] nm iterable action event = (Inr Result_new, event)"
| "For_loop (object # rest) nm iterable action event =
     (case object of
        Reservedword w \<Rightarrow>
          (case For_actions w of
             None \<Rightarrow> (Inl (PyException ''KeyError''), event)
           | Some a \<Rightarrow> For_loop rest nm iterable a event)
      | _ \<Rightarrow>
          if action = Some ''variable'' then
            (case finalize_plain object event of
               (Inl ex, event') \<Rightarrow> (Inl ex, event')
             | (Inr v, event') \<Rightarrow> For_loop rest v iterable action event')
          else if action = Some ''list'' then
            (case finalize_plain object event of
               (Inl ex, event') \<Rightarrow> (Inl ex, event')
             | (Inr output, event') \<Rightarrow>
                 For_loop rest nm
                   (iterable @ (case output of VList xs \<Rightarrow> xs | VResult xs l \<Rightarrow> xs | _ \<Rightarrow> [output]))
                   action event')
          else if action = Some ''action'' then For_iterate nm object iterable Result_new event
          else For_loop rest nm iterable action event)"

definition For_finalize :: "'a wrapper list \<Rightarrow> 'a finalize" where
  "For_finalize data_list event =
     (case For_loop data_list VNone [] None event of
        (Inl ex, event') \<Rightarrow> (Inl ex, event')
      | (Inr result, event') \<Rightarrow> (Inr (as_val result), event'))"

text \<open>
  The \<open>while True\<close> of \<open>Loop.finalize\<close>, from the state \<open>total\<close>, \<open>result\<close>.  The condition
  is evaluated outside the \<open>try\<close>; a condition that was never set is \<open>None\<close>, and calling
  it raises \<open>TypeError\<close>.
\<close>

function Loop_while ::
  "'a wrapper option \<Rightarrow> bool \<Rightarrow> 'a wrapper \<Rightarrow> nat \<Rightarrow> Result \<Rightarrow> 'a Event_scheme
     \<Rightarrow> (exception + Result) \<times> 'a Event_scheme" where
  "Loop_while condition is_true object total' result event =
     (if Suc total' > 1000
      then (Inl (LimitExceededError 1000 ''maximum repeatings''), event)
      else case condition of
        None \<Rightarrow> (Inl (PyException ''TypeError''), event)
      | Some c \<Rightarrow>
          (case finalize_plain c event of
             (Inl ex, event1) \<Rightarrow> (Inl ex, event1)
           | (Inr cv, event1) \<Rightarrow>
               (case iterate cv of
                  Inl ex \<Rightarrow> (Inl ex, event1)
                | Inr xs \<Rightarrow>
                    if (list_ex is_BaseError_val xs \<and> is_true)
                       \<or> (\<not> list_ex is_BaseError_val xs \<and> \<not> is_true)
                    then (Inr result, event1)
                    else
                      (case try_body object result event1 of
                         ((None, result1), event2) \<Rightarrow>
                           Loop_while condition is_true object (Suc total') result1 event2
                       | ((Some ex, result1), event2) \<Rightarrow>
                           (case ex of
                              BreakError \<Rightarrow> (Inr result1, event2)
                            | ContinueError \<Rightarrow>
                                Loop_while condition is_true object (Suc total') result1 event2
                            | ReturnError v \<Rightarrow>
                                (Inl (ReturnError (as_val (lshift result1 v))), event2)
                            | _ \<Rightarrow>
                                Loop_while condition is_true object (Suc total') result1 event2)))))"
  by pat_completeness auto
termination
  by (relation "measure (\<lambda>(condition, is_true, object, total', result, event). 1001 - total')")
     auto

declare Loop_while.simps [simp del]



text \<open>
  A function of the session (\<open>Function\<close> after \<open>Function.finalize\<close>): its name and
  \<open>self.function\<close>, the \<open>finalize\<close> of its body.
\<close>

record 'a Function =
  function_name :: val
  function_body :: "'a finalize option"

text \<open>
  \<open>Function.execute(event, args, stdin)\<close>.  \<open>set_variable\<close> is before the \<open>try\<close>.  In the
  \<open>try\<close>, \<open>result\<close> is assigned before \<open>last_keyword_error\<close> is called;
  \<open>except ReturnError\<close> takes the value of the error as the result, and
  \<open>except Exception: pass\<close> keeps what \<open>result\<close> was.
\<close>

definition Function_execute ::
  "'a Function \<Rightarrow> 'a Event_scheme \<Rightarrow> val list \<Rightarrow> val \<Rightarrow> (exception + val) \<times> 'a Event_scheme" where
  "Function_execute self event args stdin =
     (let old_args = command_args event;
          event1 = event\<lparr>command_args := function_name self # args\<rparr>
      in case set_variable event1 (VStr ''_stdin'') stdin of
           Inl ex \<Rightarrow> (Inl ex, event1)
         | Inr event2 \<Rightarrow>
             let (result, event3) =
                   (case function_body self of
                      None \<Rightarrow> (VNone, event2)
                    | Some f \<Rightarrow>
                        (case f event2 of
                           (Inl ex, event') \<Rightarrow>
                             ((case ex of ReturnError v \<Rightarrow> v | _ \<Rightarrow> VNone), event')
                         | (Inr v, event') \<Rightarrow>
                             ((case val_last_keyword_error v of
                                 Some (ReturnError v') \<Rightarrow> v'
                               | _ \<Rightarrow> v), event')))
             in (Inr result, (pop_variable event3 (VStr ''_stdin''))\<lparr>command_args := old_args\<rparr>))"

text \<open>
  What a command name resolves to: a statically registered command or a function of the
  session.  (Script files, for names with a slash, and aliases are not part of the model:
  \<open>get_command\<close> below is \<open>models.packages.get_command\<close> for a name without a slash in a
  session without aliases.)
\<close>

datatype 'a callable = StaticCommand "'a Command" | SessionFunction "'a Function"

record 'a environment =
  session_functions :: "string \<Rightarrow> 'a Function option"
  commands :: "'a Command list"

definition get_command :: "'a environment \<Rightarrow> string \<Rightarrow> 'a callable option" where
  "get_command env nm =
     (case session_functions env nm of
        Some func \<Rightarrow> Some (SessionFunction func)
      | None \<Rightarrow>
          (case find (\<lambda>command. command_name command = nm \<or> nm \<in> set (command_aliases command))
                  (commands env) of
             Some command \<Rightarrow> Some (StaticCommand command)
           | None \<Rightarrow> None))"

text \<open>\<open>command.execute(event, args, stdin)\<close> on what the name resolved to.\<close>

definition call_command ::
  "'a callable \<Rightarrow> 'a Event_scheme \<Rightarrow> string list \<Rightarrow> val \<Rightarrow> (exception + val) \<times> 'a Event_scheme" where
  "call_command command event args stdin =
     (case command of
        StaticCommand cls \<Rightarrow> execute cls event args stdin
      | SessionFunction func \<Rightarrow> Function_execute func event (map VStr args) stdin)"

text \<open>The handlers around that call in \<open>Command.finalize\<close>: \<open>except KeywordError: raise\<close>,
  \<open>except BaseError as ex: result = ex\<close>, \<open>except Exception: raise\<close>.\<close>

definition except_BaseError :: "exception + val \<Rightarrow> exception + val" where
  "except_BaseError outcome =
     (case outcome of
        Inr v \<Rightarrow> Inr v
      | Inl ex \<Rightarrow>
          if isinstance_KeywordError ex then Inl ex
          else if isinstance_BaseError ex then Inr (VError ex)
          else Inl ex)"

text \<open>
  \<open>Command.finalize(event, stdin)\<close> for a command whose parts are literal words (each
  \<open>Word.finalize\<close> returns its word), with no assignment and no redirect, so \<open>stdout\<close> is
  \<open>None\<close>.  \<open>level\<close> is the nesting depth of the node; \<open>old_args\<close> is \<open>None\<close> or a tuple,
  tested with \<open>if old_args\<close>, and is the empty list here when there is nothing to restore.
\<close>

definition Command_finalize ::
  "'a environment \<Rightarrow> nat \<Rightarrow> string list \<Rightarrow> val \<Rightarrow> 'a finalize" where
  "Command_finalize env level words stdin event =
     (case words of
        [] \<Rightarrow> (Inr stdin, event)
      | nm # args \<Rightarrow>
          let top_priority = (level = 0 \<and> \<not> skip_top_priority event);
              old_args = (if top_priority then command_args event else []);
              event1 = (if top_priority then event\<lparr>command_args := map VStr words\<rparr> else event)
          in case get_command env nm of
               None \<Rightarrow> (Inr (VError (UnknownCommandError nm)), event1)
             | Some command \<Rightarrow>
                 (case call_command command event1 args stdin of
                    (outcome, event2) \<Rightarrow>
                      (case except_BaseError outcome of
                         Inl ex \<Rightarrow> (Inl ex, event2)
                       | Inr result \<Rightarrow>
                           (Inr (as_val (lshift Result_new result)),
                            if old_args \<noteq> [] then event2\<lparr>command_args := old_args\<rparr>
                            else event2))))"

text \<open>
  The commands \<open>true\<close>, \<open>false\<close>, \<open>echo\<close>, \<open>break\<close>, \<open>continue\<close> and \<open>return\<close> of
  packages/base.  Their parsers are built by \<open>argparse\<close>, an external library; the three
  functions below give what \<open>parse_args\<close> returns for the three shapes of parser these
  commands have.  A word is an option string when it is one of the parser's flags or any
  other word of more than one character that starts with \<open>-\<close>; every option string is
  consumed where it stands, and one that is no flag of the parser is dropped:
  \<open>ArgParser.exit\<close> returns, so the report of unrecognised arguments comes back and
  \<open>parse_args\<close> returns the namespace.  What \<open>argparse\<close> does with \<open>--\<close>, with abbreviated
  or joined flags, with \<open>=\<close> and with words that look like negative numbers is not
  modelled.
\<close>

definition help_flags :: "string list" where
  "help_flags = [''-h'', ''--help'']"

definition escape_flags :: "string list" where
  "escape_flags = [''-e'', ''--interpretate-escapes'']"

definition option_string :: "string list \<Rightarrow> string \<Rightarrow> bool" where
  "option_string flags w \<longleftrightarrow> w \<in> set flags \<or> (take 1 w = ''-'' \<and> length w > 1)"

text \<open>A parser with the help flag only: every other word is dropped.\<close>

definition parse_help_only :: "string list \<Rightarrow> string + parsed" where
  "parse_help_only args = Inr (Namespace (list_ex (\<lambda>a. a \<in> set help_flags) args) [] [])"

text \<open>
  The parser of \<open>echo\<close>: the positional \<open>args\<close> with \<open>nargs="*"\<close> takes the first run of
  words that are no option strings, later such words are dropped; the flags are taken
  wherever they stand.  \<open>ns_options\<close> holds the flags given other than the help flag.
\<close>

definition parse_star :: "string list \<Rightarrow> string + parsed" where
  "parse_star args =
     Inr (Namespace (list_ex (\<lambda>a. a \<in> set help_flags) args)
            (filter (\<lambda>a. a \<in> set escape_flags) args)
            (takeWhile (\<lambda>a. \<not> option_string (help_flags @ escape_flags) a)
               (dropWhile (option_string (help_flags @ escape_flags)) args)))"

text \<open>
  The parser of \<open>return\<close>: the positional \<open>value\<close> with \<open>nargs="..."\<close> takes everything
  from the first word that is no option string on, flags included; only the option
  strings before it are parsed as such.
\<close>

definition parse_remainder :: "string list \<Rightarrow> string + parsed" where
  "parse_remainder args =
     Inr (Namespace (list_ex (\<lambda>a. a \<in> set help_flags) (takeWhile (option_string help_flags) args))
            [] (dropWhile (option_string help_flags) args))"

fun str_join :: "string \<Rightarrow> string list \<Rightarrow> string" where
  "str_join sep [] = []"
| "str_join sep [x] = x"
| "str_join sep (x # y # ys) = x @ sep @ str_join sep (y # ys)"

text \<open>\<open>unescape\<close> (models/utils.py): every backslash followed by \<open>n\<close> becomes a line feed.\<close>

fun unescape :: "string \<Rightarrow> string" where
  "unescape (a # b # cs) =
     (if a = backslash \<and> b = CHR ''n'' then CHR 0x0A # unescape cs else a # unescape (b # cs))"
| "unescape cs = cs"

text \<open>
  A command of the group \<open>any\<close> without aliases.  \<open>help_message\<close> stands for the text
  that \<open>argparser.format_help()\<close> builds, which begins with the usage line.
\<close>

definition simple_command ::
  "string \<Rightarrow> (string list \<Rightarrow> string + parsed)
     \<Rightarrow> ('a Event_scheme \<Rightarrow> parsed \<Rightarrow> val \<Rightarrow> (exception + val) \<times> 'a Event_scheme) \<Rightarrow> 'a Command" where
  "simple_command nm parse f =
     \<lparr>command_name = nm, command_group = IdStr ''any'', command_aliases = [],
      argparser = Some parse, help_message = ''usage: '' @ nm, command_function = f\<rparr>"

definition true_command :: "'a Command" where
  "true_command = simple_command ''true'' parse_help_only (\<lambda>event args stdin. (Inr VNone, event))"

definition false_command :: "'a Command" where
  "false_command = simple_command ''false'' parse_help_only (\<lambda>event args stdin. (Inl FalseError, event))"

text \<open>\<open>echo\<close>: the words joined by a space, each unescaped first when \<open>-e\<close> was given.\<close>

definition echo_command :: "'a Command" where
  "echo_command = simple_command ''echo'' parse_star
     (\<lambda>event args stdin.
        (Inr (VStr (str_join '' '' (if ns_options args \<noteq> [] then map unescape (ns_positional args)
                                    else ns_positional args))),
         event))"

definition break_command :: "'a Command" where
  "break_command = simple_command ''break'' parse_help_only (\<lambda>event args stdin. (Inl BreakError, event))"

definition continue_command :: "'a Command" where
  "continue_command =
     simple_command ''continue'' parse_help_only (\<lambda>event args stdin. (Inl ContinueError, event))"

text \<open>\<open>raise ReturnError(" ".join(args.value) or stdin or None)\<close>.\<close>

definition truthy :: "val \<Rightarrow> bool" where
  "truthy v =
     (case v of
        VNone \<Rightarrow> False
      | VStr s \<Rightarrow> s \<noteq> []
      | VInt i \<Rightarrow> i \<noteq> 0
      | VList xs \<Rightarrow> xs \<noteq> []
      | VResult d l \<Rightarrow> d \<noteq> []
      | VError ex \<Rightarrow> \<not> isinstance_BaseError ex)"

definition return_command :: "'a Command" where
  "return_command = simple_command ''return'' parse_remainder
     (\<lambda>event args stdin.
        (Inl (ReturnError (if str_join '' '' (ns_positional args) \<noteq> []
                           then VStr (str_join '' '' (ns_positional args))
                           else if truthy stdin then stdin else VNone)),
         event))"

definition base_environment :: "'a environment" where
  "base_environment =
     \<lparr>session_functions = (\<lambda>nm. None),
      commands = [true_command, false_command, echo_command, break_command, continue_command,
                  return_command]\<rparr>"

text \<open>A command node of the tree, at nesting depth 1 (inside a list or a pipeline).\<close>

definition command_node :: "'a environment \<Rightarrow> string list \<Rightarrow> 'a wrapper" where
  "command_node env words = Node (\<lambda>stdin. Command_finalize env 1 words stdin)"

section \<open>Example events and commands\<close>

text \<open>A command that requires the group \<open>admin\<close>, and the event of an ordinary user.\<close>

definition admin_command :: "unit Command" where
  "admin_command =
     \<lparr>command_name = ''shutdown'', command_group = IdStr ''admin'', command_aliases = [],
      argparser = None, help_message = [],
      command_function = (\<lambda>event args stdin. (Inr VNone, event))\<rparr>"

definition user_event :: "unit Event_scheme" where
  "user_event =
     \<lparr>groups = [IdStr ''any'', IdStr ''user'', IdInt 7], return_on_error = False,
      command_args = [VStr ''cli''], skip_top_priority = False,
      reserved_variables = [VStr ''_args''], temporary_variables = []\<rparr>"

section \<open>Vocabulary for the properties of loops\<close>










text \<open>An outcome that is a raised \<open>BreakError\<close> or \<open>ContinueError\<close>.\<close>

definition loop_signal :: "exception + 'b \<Rightarrow> bool" where
  "loop_signal outcome \<longleftrightarrow> outcome = Inl BreakError \<or> outcome = Inl ContinueError"

text \<open>The event the body of a function sees: the arguments and \<open>_stdin\<close> are set.\<close>

definition body_event :: "'a Function \<Rightarrow> 'a Event_scheme \<Rightarrow> val list \<Rightarrow> val \<Rightarrow> 'a Event_scheme" where
  "body_event self event args stdin =
     event\<lparr>command_args := function_name self # args,
           temporary_variables := AList.update (VStr ''_stdin'') stdin (temporary_variables event)\<rparr>"

section \<open>Example scripts with nested groups\<close>

text \<open>
  The nodes the processor (parser/processing.py) builds: a literal word, whose
  \<open>Word.finalize\<close> returns the word; a list, \<open>List(data)\<close>; a group in braces,
  \<open>Compound(data)\<close>, whose data are the reserved words \<open>{\<close> and \<open>}\<close> around the list.
\<close>

definition word_node :: "string \<Rightarrow> 'a wrapper" where
  "word_node w = Node (\<lambda>stdin event. (Inr (VStr w), event))"

definition list_node :: "'a wrapper list \<Rightarrow> 'a wrapper" where
  "list_node data_list = Node (\<lambda>stdin. List_finalize data_list)"

definition compound_node :: "'a wrapper \<Rightarrow> 'a wrapper" where
  "compound_node inner =
     Node (\<lambda>stdin. Compound_finalize [Reservedword ''{'', inner, Reservedword ''}''])"

text \<open>The lists \<open>echo a; break;\<close>, \<open>echo a; continue;\<close> and \<open>echo a; return 5;\<close>.\<close>

definition echo_then :: "string list \<Rightarrow> 'a wrapper" where
  "echo_then words =
     list_node [command_node base_environment [''echo'', ''a''], Operator '';'',
                command_node base_environment words, Operator '';'']"

text \<open>The data of \<open>for x in 1 2 3; do body done\<close>.\<close>

definition for_1_2_3 :: "'a wrapper \<Rightarrow> 'a wrapper list" where
  "for_1_2_3 body =
     [Reservedword ''for'', word_node ''x'', Reservedword ''in'', word_node ''1'', word_node ''2'',
      word_node ''3'', Reservedword '';'', Reservedword ''do'', body, Reservedword ''done'']"

text \<open>
  The function that \<open>f() { body }\<close> defines (\<open>Function.finalize\<close> keeps the \<open>finalize\<close>
  of the group as \<open>self.function\<close>).
\<close>

definition function_f :: "'a wrapper \<Rightarrow> 'a Function" where
  "function_f body =
     \<lparr>function_name = VStr ''f'',
      function_body = Some (Compound_finalize [Reservedword ''{'', body, Reservedword ''}''])\<rparr>"

section \<open>Parsing with retries (parser/__init__.py)\<close>

text \<open>
  What the external parser \<open>bashlex.parse\<close> does on a text: it returns a tree, raises
  \<open>bashlex.errors.ParsingError\<close> (with \<open>str(ex)\<close>, \<open>ex.message\<close>, \<open>ex.s\<close> and
  \<open>ex.position\<close>), raises \<open>NotImplementedError\<close>, or raises something else.  The
  parser is a parameter of the model.
\<close>

datatype 'ast bashlex_outcome =
    Parsed 'ast
  | BashlexParsingError (str_ex: string) (ex_message: string) (ex_s: string) (ex_position: nat)
  | NotImplementedError string
  | OtherException

text \<open>Python's \<open>s[:i]\<close> and \<open>s[i:]\<close>; a negative index counts from the end.\<close>

definition slice_to :: "string \<Rightarrow> int \<Rightarrow> string" where
  "slice_to s i = (if i \<ge> 0 then take (nat i) s else take (nat (int (length s) + i)) s)"

definition slice_from :: "string \<Rightarrow> int \<Rightarrow> string" where
  "slice_from s i = (if i \<ge> 0 then drop (nat i) s else drop (nat (int (length s) + i)) s)"

text \<open>\<open>s.replace(old, new, 1)\<close>.\<close>

fun replace_first :: "string \<Rightarrow> string \<Rightarrow> string \<Rightarrow> string" where
  "replace_first old new [] = (if old = [] then new else [])"
| "replace_first old new (c # cs) =
     (if take (length old) (c # cs) = old then new @ drop (length old) (c # cs)
      else c # replace_first old new cs)"

text \<open>A character between two apostrophes.\<close>

definition quoted :: "char \<Rightarrow> string" where
  "quoted c = [CHR 0x27, c, CHR 0x27]"

text \<open>
  The \<open>while True\<close> of \<open>parse\<close> (parser/__init__.py), from the list \<open>prev\<close> and the text
  \<open>final_content\<close>.  The loop may run forever: not returning is \<open>None\<close>.  A returned
  \<open>Inl\<close> is the raised \<open>ParsingError\<close> of models/errors.py; \<open>Inr None\<close> is the
  \<open>break\<close>, after which \<open>parse\<close> returns \<open>None\<close>.  The clean-up of the text before
  the loop (regular expressions) is not modelled.
\<close>

partial_function (option) parse_loop ::
  "(string \<Rightarrow> 'ast bashlex_outcome) \<Rightarrow> string list \<Rightarrow> string
     \<Rightarrow> (exception + ('ast \<times> string) option) option" where
  "parse_loop bashlex_parse prev final_content =
     (case bashlex_parse final_content of
        Parsed ast \<Rightarrow> Some (Inr (Some (ast, final_content)))
      | NotImplementedError text \<Rightarrow> Some (Inl (ParsingError (''Unimplemented feature: '' @ text)))
      | OtherException \<Rightarrow> Some (Inl (ParsingError ''Unknown error happened''))
      | BashlexParsingError msg message source position \<Rightarrow>
          if msg \<in> set prev then Some (Inl (ParsingError msg))
          else if str_contains ''unexpected token'' message then
            if str_contains (quoted CHR ''('') message then
              parse_loop bashlex_parse (prev @ [msg])
                (replace_first source
                   (take position source @ [backslash, CHR ''(''] @ drop (position + 1) source)
                   final_content)
            else if str_contains (quoted CHR '')'') message then
              parse_loop bashlex_parse (prev @ [msg])
                (replace_first source
                   (take position source @ [backslash, CHR '')''] @ drop (position + 1) source)
                   final_content)
            else if str_contains ''('' final_content then
              parse_loop bashlex_parse (prev @ [msg])
                (slice_to final_content (int position - 2)
                 @ replace_first ''('' [backslash, CHR ''('']
                     (slice_from final_content (int position - 2)))
            else Some (Inr None)
          else Some (Inl (ParsingError msg)))"

text \<open>The error messages a parser can report.\<close>

definition messages :: "(string \<Rightarrow> 'ast bashlex_outcome) \<Rightarrow> string set" where
  "messages bashlex_parse =
     {msg. \<exists>content message source position.
             bashlex_parse content = BashlexParsingError msg message source position}"

text \<open>
  A parser given by a table of outcomes, for the examples: a text that is not in the
  table parses.  The messages of the table below have the format of
  \<open>bashlex.errors.ParsingError\<close>, \<open>message (position N)\<close>; what \<open>bashlex\<close> itself answers
  on a text is outside the repository.
\<close>

definition table_parse :: "(string \<times> unit bashlex_outcome) list \<Rightarrow> string \<Rightarrow> unit bashlex_outcome" where
  "table_parse table content = (case map_of table content of Some outcome \<Rightarrow> outcome | None \<Rightarrow> Parsed ())"

definition unexpected :: "string \<Rightarrow> string \<Rightarrow> string \<Rightarrow> nat \<Rightarrow> unit bashlex_outcome" where
  "unexpected token position_digits source position =
     BashlexParsingError
       (''unexpected token '' @ [CHR 0x27] @ token @ [CHR 0x27] @ '' (position '' @ position_digits @ '')'')
       (''unexpected token '' @ [CHR 0x27] @ token @ [CHR 0x27]) source position"

definition echo_a_table :: "(string \<times> unit bashlex_outcome) list" where
  "echo_a_table =
     [(''echo (a)'', unexpected ''a'' ''6'' ''echo (a)'' 6),
      (''echo '' @ [backslash] @ ''(a)'',
       unexpected '')'' ''8'' (''echo '' @ [backslash] @ ''(a)'') 8)]"

section \<open>Properties of the Result stream\<close>

lemma fold_data_append:
  assumes "\<And>x acc. x \<in> set xs \<Longrightarrow> data (f x acc) = data acc @ g x"
  shows "data (fold f xs r) = data r @ concat (map g xs)"
  using assms by (induction xs arbitrary: r) auto

lemma fold_data_prepend:
  assumes "\<And>x acc. x \<in> set xs \<Longrightarrow> data (f x acc) = g x @ data acc"
  shows "data (fold f (rev xs) r) = concat (map g xs) @ data r"
  using assms by (induction xs arbitrary: r rule: rev_induct) auto

lemma fold_last_unchanged:
  assumes "\<And>x acc. x \<in> set xs \<Longrightarrow> last' (f x acc) = last' acc"
  shows "last' (fold f xs r) = last' r"
  using assms by (induction xs arbitrary: r) auto

lemma append_data: "data (append' r v i) = data r @ flat_items v"
proof (induction r v i rule: append'.induct)
  case (1 r object inside)
  show ?case
  proof (cases object)
    case (VList xs)
    have "data (fold (\<lambda>element acc. append' acc element True) xs r)
            = data r @ concat (map flat_items xs)"
      by (rule fold_data_append) (simp add: "1.IH"(1)[OF VList])
    then show ?thesis by (subst append'.simps) (simp add: VList Let_def)
  next
    case (VResult xs l)
    have "data (fold (\<lambda>element acc. append' acc element True) xs r)
            = data r @ concat (map flat_items xs)"
      by (rule fold_data_append) (simp add: "1.IH"(2)[OF VResult])
    then show ?thesis by (subst append'.simps) (simp add: VResult Let_def)
  qed (subst append'.simps, simp add: Let_def)+
qed

lemma append_last: "last' (append' r v i) = (if i then last' r else v)"
proof (induction r v i rule: append'.induct)
  case (1 r object inside)
  show ?case
  proof (cases object)
    case (VList xs)
    have "last' (fold (\<lambda>element acc. append' acc element True) xs r) = last' r"
      by (rule fold_last_unchanged) (simp add: "1.IH"(1)[OF VList])
    then show ?thesis by (subst append'.simps) (simp add: VList Let_def)
  next
    case (VResult xs l)
    have "last' (fold (\<lambda>element acc. append' acc element True) xs r) = last' r"
      by (rule fold_last_unchanged) (simp add: "1.IH"(2)[OF VResult])
    then show ?thesis by (subst append'.simps) (simp add: VResult Let_def)
  qed (subst append'.simps, simp add: Let_def)+
qed

lemma insert_data: "data (insert' r v i) = flat_items v @ data r"
proof (induction r v i rule: insert'.induct)
  case (1 r object inside)
  show ?case
  proof (cases object)
    case (VList xs)
    have "data (fold (\<lambda>element acc. insert' acc element True) (rev xs) r)
            = concat (map flat_items xs) @ data r"
      by (rule fold_data_prepend) (simp add: "1.IH"(1)[OF VList])
    then show ?thesis by (subst insert'.simps) (simp add: VList Let_def)
  next
    case (VResult xs l)
    have "data (fold (\<lambda>element acc. insert' acc element True) (rev xs) r)
            = concat (map flat_items xs) @ data r"
      by (rule fold_data_prepend) (simp add: "1.IH"(2)[OF VResult])
    then show ?thesis by (subst insert'.simps) (simp add: VResult Let_def)
  qed (subst insert'.simps, simp add: Let_def)+
qed

lemma insert_last: "last' (insert' r v i) = (if i then last' r else v)"
proof (induction r v i rule: insert'.induct)
  case (1 r object inside)
  show ?case
  proof (cases object)
    case (VList xs)
    have "last' (fold (\<lambda>element acc. insert' acc element True) (rev xs) r) = last' r"
      by (rule fold_last_unchanged) (simp add: "1.IH"(1)[OF VList])
    then show ?thesis by (subst insert'.simps) (simp add: VList Let_def)
  next
    case (VResult xs l)
    have "last' (fold (\<lambda>element acc. insert' acc element True) (rev xs) r) = last' r"
      by (rule fold_last_unchanged) (simp add: "1.IH"(2)[OF VResult])
    then show ?thesis by (subst insert'.simps) (simp add: VResult Let_def)
  qed (subst insert'.simps, simp add: Let_def)+
qed

lemma flat_items_leaves: "x \<in> set (flat_items v) \<Longrightarrow> x \<noteq> VNone \<and> \<not> is_list_or_Result x"
  by (induction v arbitrary: x rule: flat_items.induct) auto

lemma flat_items_atom: "\<not> is_list_or_Result v \<Longrightarrow> v \<noteq> VNone \<Longrightarrow> flat_items v = [v]"
  by (cases v) auto

lemma append_equation: "append' r v i = \<lparr>data = data r @ flat_items v, last' = (if i then last' r else v)\<rparr>"
  by (rule Result.equality) (simp_all add: append_data append_last)

lemma insert_equation: "insert' r v i = \<lparr>data = flat_items v @ data r, last' = (if i then last' r else v)\<rparr>"
  by (rule Result.equality) (simp_all add: insert_data insert_last)

lemma lshift_equation: "lshift r v = \<lparr>data = data r @ flat_items v, last' = v\<rparr>"
  by (simp add: lshift_def append_equation)

text \<open>
  C1, as the code has it.  Appending (or prepending) a value \<open>v\<close> to a Result splices the
  leaves of \<open>v\<close> into \<open>data\<close>: a list or Result is opened through every nesting level
  (not one level only), so no element that is added is itself a list or a Result, and
  \<open>None\<close> is never added; a value that is neither a list, a Result nor \<open>None\<close> is
  added itself; and afterwards \<open>last\<close> is the top-level value \<open>v\<close>.
\<close>

theorem Result_append_insert_flatten:
  "data (append' r v False) = data r @ flat_items v
   \<and> data (insert' r v False) = flat_items v @ data r
   \<and> last' (append' r v False) = v
   \<and> last' (insert' r v False) = v
   \<and> (\<forall>x \<in> set (flat_items v). x \<noteq> VNone \<and> \<not> is_list_or_Result x)
   \<and> (\<not> is_list_or_Result v \<and> v \<noteq> VNone \<longrightarrow> flat_items v = [v])"
  using flat_items_leaves flat_items_atom
  by (simp add: append_data insert_data append_last insert_last)

theorem Result_append_insert_flatten_witness:
  "data (append' \<lparr>data = [VInt 0], last' = VNone\<rparr>
           (VList [VList [VStr ''a'', VNone], VResult [VInt 1] VNone, VInt 2]) False)
     = [VInt 0, VStr ''a'', VInt 1, VInt 2]
   \<and> data (insert' \<lparr>data = [VInt 0], last' = VNone\<rparr>
           (VList [VList [VStr ''a'', VNone], VResult [VInt 1] VNone, VInt 2]) False)
     = [VStr ''a'', VInt 1, VInt 2, VInt 0]
   \<and> last' (append' \<lparr>data = [VInt 0], last' = VNone\<rparr>
           (VList [VList [VStr ''a'', VNone], VResult [VInt 1] VNone, VInt 2]) False)
     = VList [VList [VStr ''a'', VNone], VResult [VInt 1] VNone, VInt 2]
   \<and> data (append' \<lparr>data = [VInt 0], last' = VNone\<rparr> (VStr ''b'') False)
     = [VInt 0, VStr ''b'']"
  using Result_append_insert_flatten
          [of "\<lparr>data = [VInt 0], last' = VNone\<rparr>"
              "VList [VList [VStr ''a'', VNone], VResult [VInt 1] VNone, VInt 2]"]
        Result_append_insert_flatten [of "\<lparr>data = [VInt 0], last' = VNone\<rparr>" "VStr ''b''"]
  by simp

text \<open>
  C1 as the specification words it fails: a list nested inside the appended list does not
  stay nested (it is opened too), and \<open>None\<close> is not appended.
\<close>

theorem Result_append_one_level_counterexample:
  "data (append' Result_new (VList [VList [VStr ''a'']]) False) = [VStr ''a'']
   \<and> data (append' Result_new (VList [VList [VStr ''a'']]) False) \<noteq> [VList [VStr ''a'']]
   \<and> data (append' Result_new VNone False) \<noteq> [VNone]"
  by (simp add: append_data Result_new_def)

section \<open>Properties of lists of commands\<close>











section \<open>Properties of removal\<close>

text \<open>
  The first two parts of C3 hold: a child directory with entries is refused without
  \<open>recursive\<close> and nothing changes; removing the only reference to a node that is not a
  directory frees its inode and takes it out of the backing store.
\<close>

lemma remove_nonempty_directory:
  assumes "kind self \<noteq> ''file''" and "check self ''write'' event = Inr b"
    and "n \<noteq> []" and "select special fs self n event = Inr (Some selected)"
    and "kind selected \<in> set dir_kinds" and "files selected \<noteq> []"
  shows "remove special fuel fs self (Some n) event False None
           = Some (Inl (NonEmptyDirectoryError (name selected)), self, fs)"
  using assms by (simp add: remove_def)

lemma remove_last_reference:
  assumes "kind self \<noteq> ''file''" and "check self ''write'' event = Inr b"
    and "n \<noteq> []" and "select special fs self n event = Inr (Some selected)"
    and "kind selected \<notin> set dir_kinds" and "refs selected = [inode self]"
    and "name selected \<in> fst ` set (files self)"
    and "remove special (Suc fuel) fs self (Some n) event recursive None = Some (r, self', fs')"
  shows "r = Inr [name selected]
       \<and> files self' = AList.delete (name selected) (files self)
       \<and> free_inodes_list (root_directory fs') = free_inodes_list (root_directory fs) @ [inode selected]
       \<and> (inode selected \<noteq> inode self \<longrightarrow> db fs' (inode selected) = None)"
  using assms
  by (auto simp: remove_def remove_reference_def Let_def touch_def save_def split: if_splits)

text \<open>
  C3, the recursive part, on the code.  A directory \<open>sub\<close> is created in the directory
  of user 7 and a file \<open>f\<close> in \<open>sub\<close>; \<open>create\<close> gives each new node its parent as a
  reference.  Removing \<open>sub\<close> with \<open>recursive = True\<close> then deletes \<open>sub\<close> only:
  \<open>__delete\<close> on the child \<open>f\<close> returns at once because \<open>f.refs\<close> still holds the inode
  of \<open>sub\<close>, so \<open>f\<close> stays in the backing store and its inode 10002 does not reach the
  free list.
\<close>

theorem remove_recursive_keeps_children: "(case create fs0 home7 ''directory'' ''sub'' None user7 of
     (Inr (home', sub), fs1) \<Rightarrow>
       (case create fs1 sub ''file'' ''f'' None user7 of
          (Inr (sub', f), fs2) \<Rightarrow>
            refs sub' = [inode home'] \<and> refs f = [inode sub'] \<and> inode sub' = 10001 \<and> inode f = 10002
            \<and> files home' = [(''sub'', 10001)] \<and> files sub' = [(''f'', 10002)]
            \<and> (case remove no_special 3 fs2 home' (Some ''sub'') user7 True None of
                  Some (Inr removed, home'', fs3) \<Rightarrow>
                    removed = [''sub''] \<and> files home'' = []
                    \<and> free_inodes_list (root_directory fs3) = [10001]
                    \<and> db fs3 10001 = None
                    \<and> db fs3 10002 = Some f
                    \<and> 10002 \<notin> set (free_inodes_list (root_directory fs3))
                | _ \<Rightarrow> False)
        | _ \<Rightarrow> False)
   | _ \<Rightarrow> False)"
  by code_simp

section \<open>Properties of the permission check\<close>

lemma oct_digits_small: "n < 8 \<Longrightarrow> oct_digits n = [n]"
  by (subst oct_digits.simps) simp

lemma oct_digits_step: "8 \<le> n \<Longrightarrow> oct_digits n = oct_digits (n div 8) @ [n mod 8]"
  by (subst oct_digits.simps) simp

lemma rjust3_oct_digits:
  assumes "n < 512"
  shows "rjust3 (oct_digits n) = [n div 64, n div 8 mod 8, n mod 8]"
proof -
  consider "n < 8" | "8 \<le> n" "n < 64" | "64 \<le> n"  by linarith
  then show ?thesis
  proof cases
    case 1
    then show ?thesis by (simp add: oct_digits_small rjust3_def numeral_2_eq_2)
  next
    case 2
    then have "n div 8 < 8" by simp
    then show ?thesis using 2 by (simp add: oct_digits_step oct_digits_small rjust3_def)
  next
    case 3
    then have a: "8 \<le> n" "8 \<le> n div 8" by simp_all
    have b: "n div 8 div 8 < 8" using assms by simp
    have c: "n div 8 div 8 = n div 64" by (simp add: div_mult2_eq)
    show ?thesis using a b c by (simp add: oct_digits_step oct_digits_small rjust3_def)
  qed
qed

lemma rwx_bits:
  assumes "d < 8"
  shows "map (\<lambda>x. x \<noteq> CHR ''-'') (rwx_of_digit d) = triple_bits d"
proof -
  from assms consider "d = 0" | "d = 1" | "d = 2" | "d = 3" | "d = 4" | "d = 5" | "d = 6" | "d = 7"
    by linarith
  then show ?thesis
    by cases (simp_all add: rwx_of_digit_def Let_def triple_bits_def triple_allows_def)
qed

lemma bit_grouped_9bit:
  assumes "0 \<le> value m" "value m \<le> 511"
  shows "bit_grouped m = Inr [triple_bits (triple_of (value m) 0),
                              triple_bits (triple_of (value m) 1),
                              triple_bits (triple_of (value m) 2)]"
proof -
  let ?n = "nat (value m)"
  have n: "?n < 512" using assms by simp
  have d: "?n div 64 < 8" "?n div 8 mod 8 < 8" "?n mod 8 < 8" using n by simp_all
  have t: "triple_of (value m) 0 = ?n div 64" "triple_of (value m) 1 = ?n div 8 mod 8"
          "triple_of (value m) 2 = ?n mod 8"
    using n by (simp_all add: triple_of_def)
  have r: "map (\<lambda>x. x \<noteq> CHR ''-'') (rwx_of_digit (?n div 64)) = triple_bits (triple_of (value m) 0)"
          "map (\<lambda>x. x \<noteq> CHR ''-'') (rwx_of_digit (?n div 8 mod 8)) = triple_bits (triple_of (value m) 1)"
          "map (\<lambda>x. x \<noteq> CHR ''-'') (rwx_of_digit (?n mod 8)) = triple_bits (triple_of (value m) 2)"
    using rwx_bits[OF d(1)] rwx_bits[OF d(2)] rwx_bits[OF d(3)] by (simp_all only: t)
  have c: "chunks3 (triple_bits a @ triple_bits b @ triple_bits c)
        = [triple_bits a, triple_bits b, triple_bits c]" for a b c
    by (simp add: triple_bits_def)
  show ?thesis
    using assms(1) by (simp add: bit_grouped_def Mode_iter_def rjust3_oct_digits[OF n] c r)
qed

lemma Mode_check_9bit:
  assumes "0 \<le> value m" and "value m \<le> 511"
    and "action \<in> {''read'', ''write'', ''execute''}"
  shows "Mode_check m action (EventOf p) exception =
           (if triple_allows (selected_triple m p) action then Inr True
            else if exception then Inl (PermissionDeniedError action) else Inr False)"
  using assms(3)
  by (auto simp: Mode_check_def bit_grouped_9bit[OF assms(1,2)] selected_triple_def indexes_def
        Let_def triple_bits_def)

text \<open>
  C4.  For a 9-bit mode value (\<open>0o000\<close> to \<open>0o777\<close>) and an action among read, write and
  execute, a check for an acting principal consults exactly one triple: the owner's if
  the principal's identity is the owner, else the group's if the group is among the
  principal's groups, else the others'.  The check succeeds if that triple has the
  action's bit, and otherwise raises the permission error (or returns \<open>False\<close> when
  \<open>exception\<close> is off).  For mode \<open>0o640\<close> a principal that is neither the owner nor in
  the group is denied write and read, and a member of the group other than the owner may
  read and is denied write.
\<close>

theorem Mode_check_one_triple:
  assumes "0 \<le> value m" and "value m \<le> 511"
    and "action \<in> {''read'', ''write'', ''execute''}"
  shows "Mode_check m action (EventOf p) exception =
           (if triple_allows (selected_triple m p) action then Inr True
            else if exception then Inl (PermissionDeniedError action) else Inr False)
       \<and> (value m = 416 \<and> principal_id p \<noteq> owner m \<and> group m \<notin> set (principal_groups p) \<longrightarrow>
            Mode_check m ''write'' (EventOf p) True = Inl (PermissionDeniedError ''write'')
          \<and> Mode_check m ''read'' (EventOf p) True = Inl (PermissionDeniedError ''read''))
       \<and> (value m = 416 \<and> principal_id p \<noteq> owner m \<and> group m \<in> set (principal_groups p) \<longrightarrow>
            Mode_check m ''read'' (EventOf p) True = Inr True
          \<and> Mode_check m ''write'' (EventOf p) True = Inl (PermissionDeniedError ''write''))"
proof -
  have r: "Mode_check m ''read'' (EventOf p) True =
           (if triple_allows (selected_triple m p) ''read'' then Inr True
            else Inl (PermissionDeniedError ''read''))"
    using Mode_check_9bit[OF assms(1,2), of "''read''" p True] by simp
  have w: "Mode_check m ''write'' (EventOf p) True =
           (if triple_allows (selected_triple m p) ''write'' then Inr True
            else Inl (PermissionDeniedError ''write''))"
    using Mode_check_9bit[OF assms(1,2), of "''write''" p True] by simp
  show ?thesis
    unfolding r w using Mode_check_9bit[OF assms, of p exception]
    by (simp add: selected_triple_def triple_of_def triple_allows_def)
qed

theorem Mode_check_one_triple_witness:
  "Mode_check \<lparr>value = 416, owner = IdInt 1, group = IdStr ''g''\<rparr> ''read''
      (EventOf \<lparr>principal_id = IdInt 2, principal_groups = [IdStr ''any'', IdStr ''g'']\<rparr>) True = Inr True
   \<and> Mode_check \<lparr>value = 416, owner = IdInt 1, group = IdStr ''g''\<rparr> ''write''
      (EventOf \<lparr>principal_id = IdInt 2, principal_groups = [IdStr ''any'', IdStr ''g'']\<rparr>) True
        = Inl (PermissionDeniedError ''write'')"
proof -
  let ?m = "\<lparr>value = 416, owner = IdInt 1, group = IdStr ''g''\<rparr>"
  let ?p = "\<lparr>principal_id = IdInt 2, principal_groups = [IdStr ''any'', IdStr ''g'']\<rparr>"
  have a: "0 \<le> value ?m" "value ?m \<le> 511" "''read'' \<in> {''read'', ''write'', ''execute''}"
    by simp_all
  show ?thesis
    using Mode_check_one_triple[OF a, of ?p True, THEN conjunct2, THEN conjunct2] by simp
qed

text \<open>
  Outside what C4 is about.  A check with \<open>event = True\<close> succeeds without reading the
  mode, and one with \<open>event = None\<close> raises \<open>AttributeError\<close> (\<open>ValueError\<close> for a negative
  value).  \<open>chmod\<close> does not test
  its argument, so a value above \<open>0o777\<close> can be stored; \<open>bit_grouped\<close> then has four
  triples and the owner is checked against the leading digit: for \<open>0o1640\<close> the owner
  may not read.
\<close>

lemma Mode_check_without_principal:
  "Mode_check \<lparr>value = 0, owner = IdInt 1, group = IdStr ''g''\<rparr> ''write'' EventTrue True = Inr True
   \<and> Mode_check \<lparr>value = 511, owner = IdInt 1, group = IdStr ''g''\<rparr> ''read'' EventNone True
       = Inl (PyException ''AttributeError'')
   \<and> Mode_check \<lparr>value = - 1, owner = IdInt 1, group = IdStr ''g''\<rparr> ''read'' EventNone True
       = Inl (PyException ''ValueError'')"
  by (simp add: Mode_check_def bit_grouped_def Mode_iter_def)

lemma Mode_check_four_digits:
  "Mode_check \<lparr>value = 928, owner = IdInt 1, group = IdStr ''g''\<rparr> ''read''
     (EventOf \<lparr>principal_id = IdInt 1, principal_groups = [IdStr ''any'']\<rparr>) True
   = Inl (PermissionDeniedError ''read'')"
  by code_simp

section \<open>Properties of while and until loops\<close>











section \<open>Properties of pipelines\<close>

lemma flat_concat: "flat d \<Longrightarrow> concat (map flat_items d) = d"
  by (induction d) (auto simp: flat_def flat_items_atom)

lemma flat_lshift: "flat (data result) \<Longrightarrow> flat (data (lshift result v))"
  using flat_items_leaves by (auto simp: flat_def lshift_equation)

lemma pop_flat:
  assumes "flat (data result)"
  shows "pop result = (\<lparr>data = data result, last' = VNone\<rparr>, result\<lparr>data := []\<rparr>)"
  using assms by (simp add: pop_def append_equation Result_new_def flat_concat)

lemma Pipeline_after_pipe:
  assumes "flat (data result)"
  shows "Pipeline_loop (Pipe # Node f # rest) result pipe event =
     (case f (VResult (data result) VNone) event of
        (Inl ex, event') \<Rightarrow> (Inl ex, event')
      | (Inr v, event') \<Rightarrow>
          (case last_keyword_error (lshift (result\<lparr>data := []\<rparr>) v) of
             Some ex \<Rightarrow> (Inl ex, event')
           | None \<Rightarrow> Pipeline_loop rest (lshift (result\<lparr>data := []\<rparr>) v) False event'))"
  by (simp add: pop_flat[OF assms] as_val_def Let_def split: prod.splits sum.splits)

lemma Pipeline_no_pipe:
  "Pipeline_loop (Node f # rest) result False event =
     (case f VNone event of
        (Inl ex, event') \<Rightarrow> (Inl ex, event')
      | (Inr v, event') \<Rightarrow>
          (case last_keyword_error (lshift result v) of
             Some ex \<Rightarrow> (Inl ex, event')
           | None \<Rightarrow> Pipeline_loop rest (lshift result v) False event'))"
  by (simp add: Let_def split: prod.splits sum.splits)

lemma execute_echo_a:
  assumes "IdStr ''any'' \<in> set (groups event)"
  shows "Command_finalize base_environment (Suc n) [''echo'', ''a''] stdin event
           = (Inr (VResult [VStr ''a''] (VStr ''a'')), event)"
  using assms
  by (simp add: Command_finalize_def base_environment_def get_command_def true_command_def false_command_def
      echo_command_def simple_command_def call_command_def execute_def unsafe_execute_def group_check_fails_def
      parse_star_def help_flags_def escape_flags_def option_string_def except_BaseError_def lshift_equation Result_new_def as_val_def)

lemma echo_a_pipe:
  assumes "IdStr ''any'' \<in> set (groups event)"
  shows "Pipeline_finalize [command_node base_environment [''echo'', ''a''], Pipe, Node consumer] event =
     (case consumer (VResult [VStr ''a''] VNone) event of
        (Inl ex, event') \<Rightarrow> (Inl ex, event')
      | (Inr v, event') \<Rightarrow>
          (case last_keyword_error \<lparr>data = flat_items v, last' = v\<rparr> of
             Some ex \<Rightarrow> (Inl ex, event')
           | None \<Rightarrow> (Inr (VResult (flat_items v) v), event')))"
proof -
  have k: "last_keyword_error (lshift Result_new (VResult [VStr ''a''] (VStr ''a''))) = None"
    by (simp add: last_keyword_error_def lshift_equation)
  have f: "flat (data (lshift Result_new (VResult [VStr ''a''] (VStr ''a''))))"
    by (simp add: flat_def lshift_equation Result_new_def)
  have d: "data (lshift Result_new (VResult [VStr ''a''] (VStr ''a''))) = [VStr ''a'']"
    by (simp add: lshift_equation Result_new_def)
  let ?r1 = "lshift Result_new (VResult [VStr ''a''] (VStr ''a''))"
  have s1: "Pipeline_loop [Node (\<lambda>stdin. Command_finalize base_environment 1 [''echo'', ''a''] stdin),
                           Pipe, Node consumer] Result_new False event
            = Pipeline_loop [Pipe, Node consumer] ?r1 False event"
    by (subst Pipeline_no_pipe) (simp add: execute_echo_a[OF assms] k del: Pipeline_loop.simps)
  have s2: "Pipeline_loop [Pipe, Node consumer] ?r1 False event =
     (case consumer (VResult [VStr ''a''] VNone) event of
        (Inl ex, event') \<Rightarrow> (Inl ex, event')
      | (Inr v, event') \<Rightarrow>
          (case last_keyword_error (lshift (?r1\<lparr>data := []\<rparr>) v) of
             Some ex \<Rightarrow> (Inl ex, event')
           | None \<Rightarrow> (Inr (lshift (?r1\<lparr>data := []\<rparr>) v), event')))"
    by (subst Pipeline_after_pipe[OF f]) (simp add: d del: Pipeline_loop.simps(2) split: prod.splits sum.splits option.splits)
  have l: "lshift (?r1\<lparr>data := []\<rparr>) v = \<lparr>data = flat_items v, last' = v\<rparr>" for v
    by (simp add: lshift_equation)
  show ?thesis
    unfolding Pipeline_finalize_def command_node_def s1 s2 l
    by (simp add: as_val_def split: prod.splits sum.splits option.splits)
qed

text \<open>
  C6.  In \<open>Pipeline.finalize\<close> the stage after a pipe marker is called with
  \<open>stdin\<close> = a Result holding exactly the data accumulated so far (its \<open>last\<close> is
  \<open>None\<close>), and the accumulator goes on with its data emptied; a stage not preceded by a
  pipe is called with \<open>stdin = None\<close> and the accumulator is kept.  The accumulator's data
  is flat from the start and stays so.  In \<open>echo a | consumer\<close> the consumer is called
  with the one-element stream \<open>["a"]\<close>, and the pipeline's result is what the consumer
  returned alone.
\<close>

theorem Pipeline_stdin:
  "(flat (data result) \<longrightarrow>
      Pipeline_loop (Pipe # Node f # rest) result pipe event =
        (case f (VResult (data result) VNone) event of
           (Inl ex, event') \<Rightarrow> (Inl ex, event')
         | (Inr v, event') \<Rightarrow>
             (case last_keyword_error (lshift (result\<lparr>data := []\<rparr>) v) of
                Some ex \<Rightarrow> (Inl ex, event')
              | None \<Rightarrow> Pipeline_loop rest (lshift (result\<lparr>data := []\<rparr>) v) False event')))
   \<and> Pipeline_loop (Node f # rest) result False event =
        (case f VNone event of
           (Inl ex, event') \<Rightarrow> (Inl ex, event')
         | (Inr v, event') \<Rightarrow>
             (case last_keyword_error (lshift result v) of
                Some ex \<Rightarrow> (Inl ex, event')
              | None \<Rightarrow> Pipeline_loop rest (lshift result v) False event'))
   \<and> flat (data Result_new)
   \<and> (flat (data result) \<longrightarrow>
        flat (data (lshift result v)) \<and> flat (data (lshift (result\<lparr>data := []\<rparr>) v)))
   \<and> (IdStr ''any'' \<in> set (groups event) \<longrightarrow>
        Pipeline_finalize [command_node base_environment [''echo'', ''a''], Pipe, Node consumer] event =
          (case consumer (VResult [VStr ''a''] VNone) event of
             (Inl ex, event') \<Rightarrow> (Inl ex, event')
           | (Inr v, event') \<Rightarrow>
               (case last_keyword_error \<lparr>data = flat_items v, last' = v\<rparr> of
                  Some ex \<Rightarrow> (Inl ex, event')
                | None \<Rightarrow> (Inr (VResult (flat_items v) v), event'))))"
proof (intro conjI impI)
  show "flat (data Result_new)" by (simp add: flat_def Result_new_def)
  show "flat (data (lshift result v))" if "flat (data result)"
    using that by (rule flat_lshift)
  show "flat (data (lshift (result\<lparr>data := []\<rparr>) v))" if "flat (data result)"
    by (rule flat_lshift) (simp add: flat_def)
qed (simp_all only: Pipeline_after_pipe Pipeline_no_pipe echo_a_pipe)

theorem Pipeline_stdin_witness:
  "Pipeline_finalize [command_node base_environment [''echo'', ''a''], Pipe,
                      Node (\<lambda>stdin event. (Inr (VList [VStr ''got'', stdin]), event))] user_event
     = (Inr (VResult [VStr ''got'', VStr ''a''] (VList [VStr ''got'', VResult [VStr ''a''] VNone])),
        user_event)
   \<and> Pipeline_loop [Pipe, Node (\<lambda>stdin event. (Inr stdin, event))]
        \<lparr>data = [VStr ''x'', VStr ''y''], last' = VStr ''y''\<rparr> False user_event
     = (Inr \<lparr>data = [VStr ''x'', VStr ''y''], last' = VResult [VStr ''x'', VStr ''y''] VNone\<rparr>,
        user_event)"
  using Pipeline_stdin
          [where event = user_event
             and consumer = "\<lambda>stdin event. (Inr (VList [VStr ''got'', stdin]), event)"
             and result = "\<lparr>data = [VStr ''x'', VStr ''y''], last' = VStr ''y''\<rparr>"
             and f = "\<lambda>stdin event. (Inr stdin, event)" and rest = "[]" and pipe = False]
  by (simp add: user_event_def flat_def last_keyword_error_def lshift_equation
        del: Pipeline_loop.simps(2))

section \<open>Properties of break, continue and return\<close>

text \<open>
  What the handlers do once a signal has reached them: in a round of a \<open>for\<close> or
  \<open>while\<close>/\<open>until\<close> loop, \<open>BreakError\<close> ends the loop with the Result gathered so far,
  \<open>ContinueError\<close> goes on with the next round, and \<open>ReturnError\<close> leaves the loop as a
  \<open>ReturnError\<close> around that Result with the returned value appended; no \<open>BreakError\<close>
  or \<open>ContinueError\<close> leaves the rounds of a loop; a conditional lets \<open>BreakError\<close> and
  \<open>ContinueError\<close> through and passes \<open>ReturnError\<close> on around its own Result;
  \<open>Function.execute\<close> always returns, and a \<open>ReturnError\<close> that the body raises becomes
  the result value.
\<close>

lemma set_variable_no_signal: "set_variable event nm v = Inl ex \<Longrightarrow> ex \<noteq> BreakError \<and> ex \<noteq> ContinueError"
  by (auto simp: set_variable_def split: val.splits if_splits)

lemma For_iterate_step:
  assumes "set_variable event nm variable = Inr event1"
    and "try_body object result event1 = ((Some ex, result1), event2)"
  shows "For_iterate nm object (variable # rest) result event =
           (case ex of
              BreakError \<Rightarrow> (Inr result1, event2)
            | ContinueError \<Rightarrow> For_iterate nm object rest result1 event2
            | ReturnError v \<Rightarrow> (Inl (ReturnError (as_val (lshift result1 v))), event2)
            | _ \<Rightarrow> For_iterate nm object rest result1 event2)"
  using assms by simp

lemma For_iterate_no_signal: "\<not> loop_signal (fst (For_iterate nm object iterable result event))"
proof (induction iterable arbitrary: result event)
  case Nil
  show ?case by (simp add: loop_signal_def)
next
  case (Cons variable rest)
  show ?case
  proof (cases "set_variable event nm variable")
    case (Inl ex)
    then show ?thesis using set_variable_no_signal[OF Inl] by (simp add: loop_signal_def)
  next
    case (Inr event1)
    obtain kex result1 event2 where b: "try_body object result event1 = ((kex, result1), event2)"
      by (cases "try_body object result event1") auto
    show ?thesis
    proof (cases kex)
      case None
      then show ?thesis using Inr b Cons.IH by simp
    next
      case (Some ex)
      then show ?thesis using Inr b Cons.IH[of result1 event2]
        by (cases ex) (simp_all add: loop_signal_def)
    qed
  qed
qed

lemma Loop_while_step:
  assumes "t < 1000" and "finalize_plain c event = (Inr cv, event1)" and "iterate cv = Inr xs"
    and "list_ex is_BaseError_val xs \<noteq> is_true"
    and "try_body object result event1 = ((Some ex, result1), event2)"
  shows "Loop_while (Some c) is_true object t result event =
           (case ex of
              BreakError \<Rightarrow> (Inr result1, event2)
            | ContinueError \<Rightarrow> Loop_while (Some c) is_true object (Suc t) result1 event2
            | ReturnError v \<Rightarrow> (Inl (ReturnError (as_val (lshift result1 v))), event2)
            | _ \<Rightarrow> Loop_while (Some c) is_true object (Suc t) result1 event2)"
  using assms by (subst Loop_while.simps) auto

lemma Loop_while_no_signal:
  assumes "\<And>event. \<not> loop_signal (fst (finalize_plain c event))"
  shows "1000 - t = n \<Longrightarrow> t \<le> 1000 \<Longrightarrow>
         \<not> loop_signal (fst (Loop_while (Some c) is_true object t result event))"
proof (induction n arbitrary: t result event)
  case 0
  then have "t = 1000" by simp
  then show ?case by (subst Loop_while.simps) (simp add: loop_signal_def)
next
  case (Suc n)
  then have t: "t < 1000" "1000 - Suc t = n" "Suc t \<le> 1000" by simp_all
  note IH = Suc.IH[OF t(2) t(3)]
  obtain oc event1 where c: "finalize_plain c event = (oc, event1)"
    by (cases "finalize_plain c event")
  obtain kex result1 event2 where b: "try_body object result event1 = ((kex, result1), event2)"
    by (cases "try_body object result event1") auto
  show ?case
  proof (cases oc)
    case (Inl ex)
    then show ?thesis using assms[of event] c t(1) by (subst Loop_while.simps) (simp add: loop_signal_def)
  next
    case (Inr cv)
    show ?thesis
    proof (cases "iterate cv")
      case (Inl ex)
      then have "ex = PyException ''TypeError''" by (auto simp: iterate_def split: val.splits)
      then show ?thesis using Inl Inr c t(1) by (subst Loop_while.simps) (simp add: loop_signal_def)
    next
      case xs: (Inr xs)
      show ?thesis
      proof (cases kex)
        case None
        then show ?thesis using IH[of result1 event2] Inr xs c b t(1)
          by (subst Loop_while.simps) (simp add: loop_signal_def)
      next
        case (Some ex)
        then show ?thesis using IH[of result1 event2] Inr xs c b t(1)
          by (subst Loop_while.simps) (cases ex; simp add: loop_signal_def)
      qed
    qed
  qed
qed

lemma If_signal:
  assumes "c VNone event = (Inr cv, event1)" and "cv \<noteq> VNone" and "iterate cv = Inr xs"
    and "\<not> list_ex is_BaseError_val xs"
    and "try_body (Node b) Result_new event1 = ((Some ex, result1), event2)"
  shows "If_finalize [Reservedword ''if'', Node c, Reservedword ''then'', Node b, Reservedword ''fi'']
           event
         = (Inl (case ex of ReturnError v \<Rightarrow> ReturnError (as_val (lshift result1 v)) | _ \<Rightarrow> ex),
            event2)"
  using assms by (cases ex) (simp_all add: If_finalize_def If_actions_def)

lemma Function_execute_returns:
  assumes "VStr ''_stdin'' \<notin> set (reserved_variables event)"
  shows "\<exists>v event'. Function_execute self event args stdin = (Inr v, event')"
  using assms
  by (auto simp: Function_execute_def set_variable_def Let_def split: prod.splits option.splits sum.splits)

lemma Function_execute_ReturnError:
  assumes "VStr ''_stdin'' \<notin> set (reserved_variables event)"
    and "function_body self = Some f"
    and "f (body_event self event args stdin) = (Inl (ReturnError v), event3)"
  shows "Function_execute self event args stdin
           = (Inr v, (pop_variable event3 (VStr ''_stdin''))\<lparr>command_args := command_args event\<rparr>)"
  using assms
  by (simp add: Function_execute_def set_variable_def Let_def body_event_def)

text \<open>
  A signal reaches the handler of a loop or of \<open>Function.execute\<close> when the body raises
  it, or when the body is a list in which the keyword ran: the list ends with the signal
  as its last value and \<open>last_keyword_error\<close> raises it again.  So
  \<open>for x in 1 2 3; do echo a; break; done\<close> stops in the first round, and
  \<open>f() { echo a; return 5; }\<close> returns \<open>5\<close>.
\<close>

lemma signal_through_list:
  "For_finalize (for_1_2_3 (echo_then [''break''])) user_event
     = (Inr (VResult [VStr ''a'', VError BreakError]
               (VResult [VStr ''a'', VError BreakError] (VError BreakError))),
        user_event\<lparr>temporary_variables := [(VStr ''x'', VStr ''1'')]\<rparr>)
   \<and> Function_execute (function_f (echo_then [''return'', ''5''])) user_event [] VNone
     = (Inr (VStr ''5''), user_event)"
  by code_simp

text \<open>
  C7.  \<open>last_keyword_error\<close> looks one Result deep, and \<open>Compound.finalize\<close> is the one
  container that does not call it (\<open>Pipeline\<close>, \<open>If\<close>, \<open>For\<close>, \<open>Loop\<close> and
  \<open>Function.execute\<close> do).  A signal of a list inside a group in braces is therefore
  never raised again: it stays in the Result as a value.
  \<open>for x in 1 2 3; do { echo a; break; } done\<close> runs all three rounds, whether the body
  of the loop is the group or a list that holds the group;
  \<open>for x in 1 2 3; do { echo a; continue; }; echo b; done\<close> runs \<open>echo b\<close> in every round;
  and \<open>f() { { echo a; return 5; }; echo b; }\<close> runs \<open>echo b\<close> and returns the whole
  Result, not \<open>5\<close>.
\<close>

theorem signal_lost_in_group:
  "For_finalize (for_1_2_3 (compound_node (echo_then [''break'']))) user_event
     = (Inr (VResult [VStr ''a'', VError BreakError, VStr ''a'', VError BreakError,
                      VStr ''a'', VError BreakError]
               (VResult [VStr ''a'', VError BreakError]
                  (VResult [VStr ''a'', VError BreakError] (VError BreakError)))),
        user_event\<lparr>temporary_variables := [(VStr ''x'', VStr ''3'')]\<rparr>)
   \<and> For_finalize (for_1_2_3 (list_node [compound_node (echo_then [''break'']), Operator '';'']))
        user_event
     = (Inr (VResult [VStr ''a'', VError BreakError, VStr ''a'', VError BreakError,
                      VStr ''a'', VError BreakError]
               (VResult [VStr ''a'', VError BreakError]
                  (VResult [VStr ''a'', VError BreakError]
                     (VResult [VStr ''a'', VError BreakError] (VError BreakError))))),
        user_event\<lparr>temporary_variables := [(VStr ''x'', VStr ''3'')]\<rparr>)
   \<and> fst (For_finalize
             (for_1_2_3 (list_node [compound_node (echo_then [''continue'']), Operator '';'',
                                     command_node base_environment [''echo'', ''b''], Operator '';'']))
             user_event)
     = Inr (VResult [VStr ''a'', VError ContinueError, VStr ''b'',
                     VStr ''a'', VError ContinueError, VStr ''b'',
                     VStr ''a'', VError ContinueError, VStr ''b'']
              (VResult [VStr ''a'', VError ContinueError, VStr ''b'']
                 (VResult [VStr ''b''] (VStr ''b''))))
   \<and> Function_execute
        (function_f (list_node [compound_node (echo_then [''return'', ''5'']), Operator '';'',
                                command_node base_environment [''echo'', ''b''], Operator '';'']))
        user_event [] VNone
     = (Inr (VResult [VStr ''a'', VError (ReturnError (VStr ''5'')), VStr ''b'']
               (VResult [VStr ''a'', VError (ReturnError (VStr ''5'')), VStr ''b'']
                  (VResult [VStr ''b''] (VStr ''b'')))),
        user_event)"
  by code_simp

section \<open>Properties of dispatch\<close>

text \<open>
  C8.  \<open>unsafe_execute\<close> tests the capability groups first: when the caller's groups
  contain neither the command's group nor \<open>root\<close>, it raises the permission error and
  the event is as it was, whatever the argument parser \<open>p\<close> and the body \<open>f\<close> are
  (neither is applied); otherwise the parser and then the body run.  Through \<open>execute\<close>
  the permission error is raised as it is, or wrapped in a \<open>ReturnError\<close> under the
  option \<open>return_on_error\<close>.
\<close>

theorem unsafe_execute_group_check_first:
  "unsafe_execute (cls\<lparr>argparser := p, command_function := f\<rparr>) event parsed stdin =
     (if command_group cls \<notin> set (groups event) \<and> IdStr ''root'' \<notin> set (groups event)
      then (Inl (CommandPermissionError (command_name cls)), event)
      else case p of
        None \<Rightarrow> f event (Args parsed) stdin
      | Some parse_args \<Rightarrow>
          (case parse_args parsed of
             Inl argument_name \<Rightarrow> (Inl (ArgparseError (command_name cls) argument_name), event)
           | Inr ns \<Rightarrow>
               if (case ns of Namespace h _ _ \<Rightarrow> h | Args _ \<Rightarrow> False)
               then (Inr (VStr (help_message cls)), event)
               else f event ns stdin))
   \<and> (command_group cls \<notin> set (groups event) \<and> IdStr ''root'' \<notin> set (groups event) \<longrightarrow>
        execute (cls\<lparr>argparser := p, command_function := f\<rparr>) event parsed stdin =
          (Inl (if return_on_error event
                then ReturnError (VError (CommandPermissionError (command_name cls)))
                else CommandPermissionError (command_name cls)), event))"
  by (auto simp: unsafe_execute_def execute_def group_check_fails_def split: option.splits sum.splits)

theorem unsafe_execute_group_check_first_witness:
  "unsafe_execute
     (admin_command\<lparr>argparser := Some (\<lambda>args. Inl ''x''),
                     command_function := (\<lambda>event args stdin. (Inr (VStr ''ran''), event\<lparr>command_args := []\<rparr>))\<rparr>)
     user_event [''now''] VNone
   = (Inl (CommandPermissionError ''shutdown''), user_event)
   \<and> unsafe_execute
     (admin_command\<lparr>argparser := None,
                     command_function := (\<lambda>event args stdin. (Inr (VStr ''ran''), event\<lparr>command_args := []\<rparr>))\<rparr>)
     (user_event\<lparr>groups := [IdStr ''any'', IdStr ''root'']\<rparr>) [''now''] VNone
   = (Inr (VStr ''ran''), user_event\<lparr>groups := [IdStr ''any'', IdStr ''root''], command_args := []\<rparr>)"
  using unsafe_execute_group_check_first
          [where cls = admin_command and p = "Some (\<lambda>args. Inl ''x'')"
             and f = "\<lambda>event args stdin. (Inr (VStr ''ran''), event\<lparr>command_args := []\<rparr>)"
             and event = user_event and parsed = "[''now'']" and stdin = VNone]
        unsafe_execute_group_check_first
          [where cls = admin_command and p = None
             and f = "\<lambda>event args stdin. (Inr (VStr ''ran''), event\<lparr>command_args := []\<rparr>)"
             and event = "user_event\<lparr>groups := [IdStr ''any'', IdStr ''root'']\<rparr>"
             and parsed = "[''now'']" and stdin = VNone]
  by (simp add: admin_command_def user_event_def)

text \<open>
  The parsers on some argument lists: \<open>true foo\<close> runs; \<open>echo a -e b\<close> prints \<open>a\<close> with
  escapes on; \<open>return 5 -h\<close> returns \<open>5 -h\<close>, while \<open>return -h 5\<close> asks for the help text.
\<close>

lemma parse_args_examples:
  "parse_help_only [''foo''] = Inr (Namespace False [] [])
   \<and> parse_help_only [''foo'', ''-h''] = Inr (Namespace True [] [])
   \<and> parse_star [''-e'', ''a'', ''b''] = Inr (Namespace False [''-e''] [''a'', ''b''])
   \<and> parse_star [''a'', ''-e'', ''b''] = Inr (Namespace False [''-e''] [''a''])
   \<and> parse_remainder [''5'', ''-h''] = Inr (Namespace False [] [''5'', ''-h''])
   \<and> parse_remainder [''-h'', ''5''] = Inr (Namespace True [] [''5''])"
  by (simp add: parse_help_only_def parse_star_def parse_remainder_def help_flags_def
        escape_flags_def option_string_def)

section \<open>Properties of parsing with retries\<close>

lemma replace_first_self: "replace_first s new s = new"
  by (cases s) simp_all

text \<open>
  A message that was seen before raises the parse failure at once, whatever the message
  says: a message causes at most one retry.
\<close>

lemma parse_loop_repeated:
  assumes "bashlex_parse final_content = BashlexParsingError msg message source position"
    and "msg \<in> set prev"
  shows "parse_loop bashlex_parse prev final_content = Some (Inl (ParsingError msg))"
  using assms by (subst parse_loop.simps) simp

text \<open>
  A new message that reports an unexpected \<open>(\<close> in the text the parser was given: the
  loop records the message and tries again with the character at the reported position
  replaced by an escaped \<open>(\<close>.  The same for \<open>)\<close>.
\<close>

lemma parse_loop_escape:
  assumes "bashlex_parse final_content = BashlexParsingError msg message final_content position"
    and "msg \<notin> set prev" and "str_contains ''unexpected token'' message"
    and "str_contains (quoted CHR ''('') message"
  shows "parse_loop bashlex_parse prev final_content
           = parse_loop bashlex_parse (prev @ [msg])
               (take position final_content @ [backslash, CHR ''('']
                  @ drop (Suc position) final_content)"
  using assms by (subst parse_loop.simps) (simp add: replace_first_self)

lemma parse_loop_escape_close:
  assumes "bashlex_parse final_content = BashlexParsingError msg message final_content position"
    and "msg \<notin> set prev" and "str_contains ''unexpected token'' message"
    and "\<not> str_contains (quoted CHR ''('') message"
    and "str_contains (quoted CHR '')'') message"
  shows "parse_loop bashlex_parse prev final_content
           = parse_loop bashlex_parse (prev @ [msg])
               (take position final_content @ [backslash, CHR '')'']
                  @ drop (Suc position) final_content)"
  using assms by (subst parse_loop.simps) (simp add: replace_first_self)

text \<open>
  A new message that reports another unexpected token, while the text holds a \<open>(\<close>: the
  loop tries again with the first \<open>(\<close> from two characters before the reported position
  on escaped, whether or not a backslash already precedes it.  A text without \<open>(\<close> leaves
  the loop, and \<open>parse\<close> returns \<open>None\<close>; a message that reports no unexpected token
  raises the parse failure.
\<close>

lemma parse_loop_escape_other:
  assumes "bashlex_parse final_content = BashlexParsingError msg message source position"
    and "msg \<notin> set prev" and "str_contains ''unexpected token'' message"
    and "\<not> str_contains (quoted CHR ''('') message"
    and "\<not> str_contains (quoted CHR '')'') message"
  shows "parse_loop bashlex_parse prev final_content
           = (if str_contains ''('' final_content
              then parse_loop bashlex_parse (prev @ [msg])
                     (slice_to final_content (int position - 2)
                      @ replace_first ''('' [backslash, CHR ''('']
                          (slice_from final_content (int position - 2)))
              else Some (Inr None))"
  using assms by (subst parse_loop.simps) simp

lemma parse_loop_other_message:
  assumes "bashlex_parse final_content = BashlexParsingError msg message source position"
    and "msg \<notin> set prev" and "\<not> str_contains ''unexpected token'' message"
  shows "parse_loop bashlex_parse prev final_content = Some (Inl (ParsingError msg))"
  using assms by (subst parse_loop.simps) simp

text \<open>
  The loop by itself bounds the retries by the number of the parser's messages: it
  returns for every parser that has finitely many.  The messages of \<open>bashlex\<close> carry the
  position, so this bound says nothing about it; whether the loop returns on every text
  depends on what \<open>bashlex\<close> reports on the retried texts.
\<close>

lemma parse_loop_terminates:
  assumes "finite (messages bashlex_parse)"
  shows "parse_loop bashlex_parse prev final_content \<noteq> None"
proof (induction "card (messages bashlex_parse - set prev)" arbitrary: prev final_content
       rule: less_induct)
  case less
  show ?case
  proof (cases "bashlex_parse final_content")
    case (BashlexParsingError msg message source position)
    show ?thesis
    proof (cases "msg \<in> set prev")
      case True
      then show ?thesis using BashlexParsingError by (subst parse_loop.simps) simp
    next
      case False
      have m: "msg \<in> messages bashlex_parse - set prev"
        using BashlexParsingError False by (auto simp: messages_def)
      have e: "messages bashlex_parse - set (prev @ [msg]) = (messages bashlex_parse - set prev) - {msg}"
        by auto
      have f: "finite (messages bashlex_parse - set prev)" using assms by simp
      have c: "card (messages bashlex_parse - set (prev @ [msg])) < card (messages bashlex_parse - set prev)"
        unfolding e by (rule card_Diff1_less[OF f m])
      show ?thesis using BashlexParsingError False less[OF c]
        by (subst parse_loop.simps) simp
    qed
  qed (subst parse_loop.simps, simp)+
qed

text \<open>
  A run through the last two kinds of retry: for \<open>echo (a)\<close> with an unexpected \<open>a\<close>
  reported at position 6, and then an unexpected \<open>)\<close> at position 8, the loop
  returns the text with both parentheses escaped.
\<close>

lemma echo_a_table_outcomes:
  "table_parse echo_a_table ''echo (a)'' = unexpected ''a'' ''6'' ''echo (a)'' 6"
  "table_parse echo_a_table (''echo '' @ [backslash] @ ''(a)'')
     = unexpected '')'' ''8'' (''echo '' @ [backslash] @ ''(a)'') 8"
  "table_parse echo_a_table (''echo '' @ [backslash] @ ''(a'' @ [backslash] @ '')'') = Parsed ()"
  by (simp_all add: table_parse_def echo_a_table_def backslash_def)

lemma echo_a_messages:
  "str_contains ''unexpected token'' (''unexpected token '' @ [CHR 0x27] @ ''a'' @ [CHR 0x27])"
  "\<not> str_contains (quoted CHR ''('') (''unexpected token '' @ [CHR 0x27] @ ''a'' @ [CHR 0x27])"
  "\<not> str_contains (quoted CHR '')'') (''unexpected token '' @ [CHR 0x27] @ ''a'' @ [CHR 0x27])"
  "str_contains ''('' ''echo (a)''"
  "str_contains ''unexpected token'' (''unexpected token '' @ [CHR 0x27] @ '')'' @ [CHR 0x27])"
  "\<not> str_contains (quoted CHR ''('') (''unexpected token '' @ [CHR 0x27] @ '')'' @ [CHR 0x27])"
  "str_contains (quoted CHR '')'') (''unexpected token '' @ [CHR 0x27] @ '')'' @ [CHR 0x27])"
  by code_simp+

lemma echo_a_slices:
  "slice_to ''echo (a)'' (int 6 - 2)
     @ replace_first ''('' [backslash, CHR ''(''] (slice_from ''echo (a)'' (int 6 - 2))
   = ''echo '' @ [backslash] @ ''(a)''"
  by (simp add: slice_to_def slice_from_def)

lemma parse_loop_echo_a:
  "parse_loop (table_parse echo_a_table) [] ''echo (a)''
     = Some (Inr (Some ((), ''echo '' @ [backslash] @ ''(a'' @ [backslash] @ '')'')))"
proof -
  let ?m1 = "''unexpected token '' @ [CHR 0x27] @ ''a'' @ [CHR 0x27] @ '' (position 6)''"
  let ?m2 = "''unexpected token '' @ [CHR 0x27] @ '')'' @ [CHR 0x27] @ '' (position 8)''"
  let ?c2 = "''echo '' @ [backslash] @ ''(a)''"
  let ?c3 = "''echo '' @ [backslash] @ ''(a'' @ [backslash] @ '')''"
  have a: "parse_loop (table_parse echo_a_table) [] ''echo (a)''
        = parse_loop (table_parse echo_a_table) [?m1] ?c2"
    using parse_loop_escape_other[where bashlex_parse = "table_parse echo_a_table" and prev = "[]"
       and final_content = "''echo (a)''" and msg = ?m1 and source = "''echo (a)''" and position = 6
       and message = "''unexpected token '' @ [CHR 0x27] @ ''a'' @ [CHR 0x27]"]
      echo_a_table_outcomes echo_a_messages echo_a_slices by (simp add: unexpected_def)
  have b: "parse_loop (table_parse echo_a_table) [?m1] ?c2
        = parse_loop (table_parse echo_a_table) ([?m1] @ [?m2]) ?c3"
    using parse_loop_escape_close[where bashlex_parse = "table_parse echo_a_table" and prev = "[?m1]"
       and final_content = ?c2 and msg = ?m2 and position = 8
       and message = "''unexpected token '' @ [CHR 0x27] @ '')'' @ [CHR 0x27]"]
      echo_a_table_outcomes echo_a_messages by (simp add: unexpected_def)
  have c: "parse_loop (table_parse echo_a_table) ([?m1] @ [?m2]) ?c3 = Some (Inr (Some ((), ?c3)))"
    using echo_a_table_outcomes by (subst parse_loop.simps) simp
  show ?thesis using a b c by simp
qed

section \<open>Properties of inode allocation\<close>

lemma hd_filter_mem: "filter P xs = y # ys \<Longrightarrow> y \<in> set xs \<and> P y"
proof -
  assume "filter P xs = y # ys"
  then have "y \<in> set (filter P xs)" by simp
  then show ?thesis by simp
qed

lemma create_inode_step:
  assumes inv: "inode_invariant root" and pub: "10000 \<le> next_public_inode root"
    and c: "create_inode root public = (ino, root')"
  shows "inode_invariant root'" and "10000 \<le> next_public_inode root'"
    and "public \<Longrightarrow> ino \<ge> 10000"
    and "\<not> public \<Longrightarrow> next_private_inode root < 10000 \<or> free_private_inodes root \<noteq> [] \<Longrightarrow> ino < 10000"
    and "(if public then free_public_inodes root else free_private_inodes root) \<noteq> [] \<Longrightarrow>
           ino \<in> set (free_inodes_list root) \<and>
           free_inodes_list root' = remove1 ino (free_inodes_list root) \<and> ino \<notin> set (free_inodes_list root')"
    and "(if public then free_public_inodes root else free_private_inodes root) = [] \<Longrightarrow>
           free_inodes_list root' = free_inodes_list root"
    and "\<not> public \<Longrightarrow> next_private_inode root < 10000 \<or> free_private_inodes root \<noteq> [] \<Longrightarrow>
           ino \<in> available root \<and> available root' \<subseteq> available root - {ino}"
    and "public \<Longrightarrow> ino \<in> available root \<and> available root' \<subseteq> available root - {ino}"
    and "next_private_inode root' \<le> next_private_inode root + (if public then 0 else 1)"
    and "next_private_inode root \<le> next_private_inode root'"
    and "\<not> public \<Longrightarrow> free_private_inodes root = [] \<Longrightarrow>
           next_private_inode root' = next_private_inode root + 1"
  using assms
  by (auto simp: create_inode_def inode_invariant_def free_public_inodes_def free_private_inodes_def available_def
      split: if_splits list.splits dest!: hd_filter_mem dest: notin_set_remove1)

lemma create_inodes_counter_mono:
  "next_private_inode root \<le> next_private_inode (snd (create_inodes root publics))"
proof (induction publics arbitrary: root)
  case Nil
  show ?case by simp
next
  case (Cons public rest)
  obtain ino root' where c: "create_inode root public = (ino, root')"
    by (cases "create_inode root public")
  have "next_private_inode root \<le> next_private_inode root'"
    using c by (auto simp: create_inode_def split: if_splits list.splits)
  then show ?case using Cons.IH[of root'] c by (simp add: split_beta)
qed

lemma create_inodes_distinct_aux:
  assumes "inode_invariant root" and "10000 \<le> next_public_inode root"
    and "next_private_inode (snd (create_inodes root publics)) \<le> 10000"
  shows "set (fst (create_inodes root publics)) \<subseteq> available root
         \<and> distinct (fst (create_inodes root publics))"
  using assms
proof (induction publics arbitrary: root)
  case Nil
  then show ?case by simp
next
  case (Cons public rest)
  obtain ino root' where c: "create_inode root public = (ino, root')"
    by (cases "create_inode root public")
  note step = create_inode_step[OF Cons.prems(1,2) c]
  have bound': "next_private_inode (snd (create_inodes root' rest)) \<le> 10000"
    using Cons.prems(3) c by (simp add: split_beta)
  have le: "next_private_inode root' \<le> 10000"
    using create_inodes_counter_mono[of root' rest] bound' by simp
  have av: "ino \<in> available root \<and> available root' \<subseteq> available root - {ino}"
  proof (cases public)
    case True
    then show ?thesis using step(8) by simp
  next
    case False
    have "next_private_inode root < 10000 \<or> free_private_inodes root \<noteq> []"
    proof (cases "free_private_inodes root = []")
      case True
      then show ?thesis using step(11)[OF False True] le by simp
    qed simp
    then show ?thesis using step(7) False by simp
  qed
  have IH: "set (fst (create_inodes root' rest)) \<subseteq> available root'
         \<and> distinct (fst (create_inodes root' rest))"
    by (rule Cons.IH[OF step(1) step(2) bound'])
  show ?case using IH av c by (auto simp: split_beta)
qed

lemma create_inodes_append:
  "create_inodes root (as @ bs) =
     (fst (create_inodes root as) @ fst (create_inodes (snd (create_inodes root as)) bs),
      snd (create_inodes (snd (create_inodes root as)) bs))"
  by (induction as arbitrary: root) (auto simp: split_beta)

lemma create_inodes_private_run:
  "free_inodes_list root = [] \<Longrightarrow>
   snd (create_inodes root (replicate n False)) =
     root\<lparr>next_private_inode := next_private_inode root + int n\<rparr>"
proof (induction n arbitrary: root)
  case 0
  then show ?case by simp
next
  case (Suc n)
  have c: "create_inode root False = (next_private_inode root, root\<lparr>next_private_inode := next_private_inode root + 1\<rparr>)"
    using Suc.prems by (simp add: create_inode_def free_private_inodes_def)
  have "snd (create_inodes (root\<lparr>next_private_inode := next_private_inode root + 1\<rparr>) (replicate n False))
      = root\<lparr>next_private_inode := next_private_inode root + 1\<rparr>\<lparr>next_private_inode := next_private_inode (root\<lparr>next_private_inode := next_private_inode root + 1\<rparr>) + int n\<rparr>"
    by (rule Suc.IH) (simp add: Suc.prems)
  then show ?case using c by (simp add: split_beta add.assoc)
qed

text \<open>
  While the private counter stays within the reserved range, allocation is sound.  Let
  the free list have no duplicates, every free inode from 10000 on be below
  \<open>next_public_inode\<close>, every free inode below 10000 be below \<open>next_private_inode\<close>, and
  \<open>next_public_inode\<close> be at least 10000.  Then a call to \<open>create_inode\<close> keeps all of
  this; a public call returns an inode from 10000 on; a private call returns an inode
  below 10000 as long as \<open>next_private_inode\<close> is below 10000 or a private inode is
  free; the returned inode leaves the free list when it was taken from there, and the
  free list is unchanged otherwise; and the inodes returned by a sequence of calls that
  leaves \<open>next_private_inode\<close> at 10000 or below are pairwise distinct.
\<close>

lemma create_inode_within_range:
  assumes "inode_invariant root" and "10000 \<le> next_public_inode root"
  shows "inode_invariant (snd (create_inode root public))
     \<and> 10000 \<le> next_public_inode (snd (create_inode root public))
     \<and> (public \<longrightarrow> fst (create_inode root public) \<ge> 10000)
     \<and> (\<not> public \<and> (next_private_inode root < 10000 \<or> free_private_inodes root \<noteq> [])
          \<longrightarrow> fst (create_inode root public) < 10000)
     \<and> ((if public then free_public_inodes root else free_private_inodes root) \<noteq> [] \<longrightarrow>
            fst (create_inode root public) \<in> set (free_inodes_list root)
          \<and> free_inodes_list (snd (create_inode root public))
              = remove1 (fst (create_inode root public)) (free_inodes_list root)
          \<and> fst (create_inode root public) \<notin> set (free_inodes_list (snd (create_inode root public))))
     \<and> ((if public then free_public_inodes root else free_private_inodes root) = [] \<longrightarrow>
            free_inodes_list (snd (create_inode root public)) = free_inodes_list root)
     \<and> (next_private_inode (snd (create_inodes root publics)) \<le> 10000 \<longrightarrow>
            distinct (fst (create_inodes root publics)))"
proof -
  obtain ino root' where c: "create_inode root public = (ino, root')"
    by (cases "create_inode root public")
  note step = create_inode_step[OF assms c]
  have f: "fst (create_inode root public) = ino" "snd (create_inode root public) = root'"
    using c by simp_all
  show ?thesis
    unfolding f using step(1-6) create_inodes_distinct_aux[OF assms, of publics] by blast
qed

lemma create_inode_within_range_example:
  "distinct (fst (create_inodes \<lparr>free_inodes_list = [3, 4, 5], next_public_inode = 10000,
                                  next_private_inode = 9998\<rparr> [False, False, False]))"
proof -
  let ?r = "\<lparr>free_inodes_list = [3, 4, 5], next_public_inode = 10000, next_private_inode = 9998\<rparr>"
  have i: "inode_invariant ?r" by (simp add: inode_invariant_def)
  have p: "10000 \<le> next_public_inode ?r" by simp
  have e: "next_private_inode (snd (create_inodes ?r [False, False, False])) \<le> 10000"
    by (simp add: create_inode_def free_private_inodes_def)
  show ?thesis
    using create_inode_within_range[OF i p, of True "[False, False, False]"] e by blast
qed

lemma create_inodes_private_9998:
  "snd (create_inodes RootDirectory_init (replicate 9998 False))
     = \<lparr>free_inodes_list = [], next_public_inode = 10000, next_private_inode = 10000\<rparr>"
  using create_inodes_private_run[of RootDirectory_init 9998] by (simp add: RootDirectory_init_def)

text \<open>
  The root as \<open>RootDirectory.__init__\<close> builds it on an empty store satisfies the
  invariant of the free list, and so does the root that 9998 private allocations leave.
\<close>

lemma overrun_invariant:
  "inode_invariant RootDirectory_init
   \<and> inode_invariant (snd (create_inodes RootDirectory_init (replicate 9998 False)))"
  unfolding create_inodes_private_9998
  by (simp add: RootDirectory_init_def inode_invariant_def)

text \<open>
  C10.  The private counter \<open>next_private_inode\<close> has no upper bound, while every other
  part of the allocator takes 10000 as the first public inode.  From the root as
  \<open>RootDirectory.__init__\<close> builds it on an empty store, 9998 private allocations bring
  the counter to 10000 with the free list empty (so the invariant of the free list
  holds); the next private allocation then returns 10000, which is not below 10000, and
  the public allocation after it returns 10000 again, so the inodes returned by the
  sequence are not pairwise distinct.
\<close>

theorem create_inode_private_overrun:
  "snd (create_inodes RootDirectory_init (replicate 9998 False))
       = \<lparr>free_inodes_list = [], next_public_inode = 10000, next_private_inode = 10000\<rparr>
   \<and> fst (create_inode (snd (create_inodes RootDirectory_init (replicate 9998 False))) False) = 10000
   \<and> fst (create_inodes (snd (create_inodes RootDirectory_init (replicate 9998 False))) [False, True])
       = [10000, 10000]
   \<and> \<not> distinct (fst (create_inodes RootDirectory_init (replicate 9998 False @ [False, True])))"
proof -
  let ?full = "\<lparr>free_inodes_list = [], next_public_inode = 10000, next_private_inode = 10000\<rparr>"
  note r = create_inodes_private_9998
  have t: "fst (create_inodes ?full [False, True]) = [10000, 10000]"
    by (simp add: create_inode_def free_private_inodes_def free_public_inodes_def)
  have "fst (create_inodes RootDirectory_init (replicate 9998 False @ [False, True]))
          = fst (create_inodes RootDirectory_init (replicate 9998 False)) @ [10000, 10000]"
    unfolding create_inodes_append r t by (simp only: fst_conv)
  then have d: "\<not> distinct (fst (create_inodes RootDirectory_init (replicate 9998 False @ [False, True])))"
    by simp
  show ?thesis
    unfolding r using t d
    by (simp add: create_inode_def free_private_inodes_def)
qed

end
